theory Spec2Isabelle
  imports Complex_Main
begin

section \<open>Python strings\<close>

text \<open>
  The program works on Python \<open>str\<close> values. They are modelled as \<^typ>\<open>string\<close>, one
  \<^typ>\<open>char\<close> per code point, which covers the code points U+0000 to U+00FF (Latin-1);
  this is enough for every literal of \<open>main.py\<close>. The string methods below follow
  CPython on that range.
\<close>

definition isspace :: "char \<Rightarrow> bool" where
  \<comment> \<open>\<open>str.isspace\<close> on one code point: TAB..CR, FS..US, SPACE, NEL, NBSP.\<close>
  "isspace c =
     (let n = (of_char c :: nat)
      in (9 \<le> n \<and> n \<le> 13) \<or> (28 \<le> n \<and> n \<le> 32) \<or> n = 133 \<or> n = 160)"

definition str_strip :: "string \<Rightarrow> string" where
  \<comment> \<open>\<open>s.strip()\<close>\<close>
  "str_strip s = rev (dropWhile isspace (rev (dropWhile isspace s)))"

definition char_lower :: "char \<Rightarrow> char" where
  \<comment> \<open>A..Z and the Latin-1 capitals (all of U+00C0..U+00DE but the sign U+00D7).\<close>
  "char_lower c =
     (let n = (of_char c :: nat)
      in if (65 \<le> n \<and> n \<le> 90) \<or> (192 \<le> n \<and> n \<le> 222 \<and> n \<noteq> 215)
         then char_of (n + 32) else c)"

definition str_lower :: "string \<Rightarrow> string" where
  \<comment> \<open>\<open>s.lower()\<close>\<close>
  "str_lower s = map char_lower s"

definition str_replace :: "char \<Rightarrow> char \<Rightarrow> string \<Rightarrow> string" where
  \<comment> \<open>\<open>s.replace(old, new)\<close> for one-character \<open>old\<close> and \<open>new\<close>\<close>
  "str_replace old new s = map (\<lambda>c. if c = old then new else c) s"

fun str_split :: "char \<Rightarrow> string \<Rightarrow> string list" where
  \<comment> \<open>\<open>s.split(sep)\<close> for a one-character separator: never an empty list\<close>
  "str_split sep [] = [[]]"
| "str_split sep (c # cs) =
     (if c = sep then [] # str_split sep cs
      else (case str_split sep cs of
              [] \<Rightarrow> [[c]]
            | w # ws \<Rightarrow> (c # w) # ws))"

fun str_join :: "string \<Rightarrow> string list \<Rightarrow> string" where
  \<comment> \<open>\<open>sep.join(xs)\<close>\<close>
  "str_join sep [] = []"
| "str_join sep [x] = x"
| "str_join sep (x # y # ys) = x @ sep @ str_join sep (y # ys)"

definition is_linebreak :: "char \<Rightarrow> bool" where
  \<comment> \<open>the line boundaries of \<open>str.splitlines\<close> below U+0100\<close>
  "is_linebreak c =
     (let n = (of_char c :: nat)
      in (10 \<le> n \<and> n \<le> 13) \<or> (28 \<le> n \<and> n \<le> 30) \<or> n = 133)"

fun splitlines_from :: "string \<Rightarrow> string \<Rightarrow> string list" where
  \<comment> \<open>the first argument is the line read so far; CR LF is one boundary\<close>
  "splitlines_from cur [] = (if cur = [] then [] else [cur])"
| "splitlines_from cur [c] = (if is_linebreak c then [cur] else [cur @ [c]])"
| "splitlines_from cur (c # d # cs) =
     (if c = CHR 0x0D \<and> d = CHR 0x0A then cur # splitlines_from [] cs
      else if is_linebreak c then cur # splitlines_from [] (d # cs)
      else splitlines_from (cur @ [c]) (d # cs))"

definition str_splitlines :: "string \<Rightarrow> string list" where
  \<comment> \<open>\<open>s.splitlines()\<close>\<close>
  "str_splitlines s = splitlines_from [] s"

definition py_str :: "string option \<Rightarrow> string" where
  \<comment> \<open>how an f-string renders a value that is a \<open>str\<close> or \<open>None\<close>\<close>
  "py_str v = (case v of None \<Rightarrow> ''None'' | Some s \<Rightarrow> s)"

section \<open>Values and records\<close>

text \<open>
  A Python \<open>float\<close>: a finite value, an infinity or a NaN. Only the comparison
  \<open>valor > 0\<close> is ever computed on it.
\<close>

datatype pyfloat = Finite rat | PosInf | NegInf | NaN

fun gt_zero :: "pyfloat \<Rightarrow> bool" where
  \<comment> \<open>\<open>valor > 0\<close>\<close>
  "gt_zero (Finite q) = (0 < q)"
| "gt_zero PosInf = True"
| "gt_zero NegInf = False"
| "gt_zero NaN = False"

text \<open>The date part of a \<open>datetime\<close>, which is all that \<open>strftime("%Y/%m/%d")\<close> reads.\<close>

record datetime =
  year :: nat
  month :: nat
  day :: nat

record TransacaoCategorizada =
  descricao :: string
  valor :: pyfloat
  tipo :: string
  categoria :: string
  data_transacao :: string
  id_transacao :: "string option"
  portador :: string

text \<open>
  What an invocation can end with instead of a table: an \<open>HTTPException\<close> raised by the
  program, with its status code and detail, or a Python exception that nothing catches.
\<close>

datatype detail =
    ValorInvalido nat         \<comment> \<open>"Valor invalido na linha {ln}"\<close>
  | ColunasFaltando "string set"  \<comment> \<open>"Colunas faltando: ..." with the names of the set, joined\<close>
  | ErroGroq string           \<comment> \<open>"Erro na Groq API: {e}"\<close>

datatype pyexception = IndexError | AttributeError | KeyError | ValidationError | CsvError

datatype error = HTTPException nat detail | Uncaught pyexception

section \<open>External collaborators\<close>

text \<open>
  Three library calls are outside \<open>main.py\<close> and are parameters of the model:
  \<^item> \<open>py_float s\<close> is \<open>float(s)\<close>; \<open>None\<close> stands for \<open>ValueError\<close>;
  \<^item> \<open>dateparser_parse s\<close> is \<open>dateparser.parse(s, dayfirst=True, fuzzy=True)\<close>;
    \<open>None\<close> stands for any exception it raises;
  \<^item> \<open>groq_chat k p\<close> is the answer of the remote model to prompt \<open>p\<close> on the
    \<open>k\<close>-th call of the invocation (counting from 0): \<open>Inr\<close> the text of
    \<open>resposta.choices[0].message.content\<close>, \<open>Inl\<close> the text of any exception raised
    inside the \<open>try\<close> block.
\<close>

record env =
  py_float :: "string \<Rightarrow> pyfloat option"
  dateparser_parse :: "string \<Rightarrow> datetime option"
  groq_chat :: "nat \<Rightarrow> string \<Rightarrow> string + string"

section \<open>Date normalisation\<close>

definition digit :: "nat \<Rightarrow> char" where
  "digit d = char_of (48 + d mod 10)"

definition strftime_Y :: "nat \<Rightarrow> string" where
  \<comment> \<open>\<open>%Y\<close> as the C library of Linux writes it: the year in decimal, with no zero before
      it, so on fewer than four digits below 1000 (the year of a \<open>datetime\<close> is 1..9999)\<close>
  "strftime_Y y =
     (if y < 10 then [digit y]
      else if y < 100 then [digit (y div 10), digit y]
      else if y < 1000 then [digit (y div 100), digit (y div 10), digit y]
      else [digit (y div 1000), digit (y div 100), digit (y div 10), digit y])"

definition strftime_Ymd :: "datetime \<Rightarrow> string" where
  \<comment> \<open>\<open>dt.strftime("%Y/%m/%d")\<close>: month and day on two digits each\<close>
  "strftime_Ymd dt =
     strftime_Y (year dt)
     @ ''/'' @ [digit (month dt div 10), digit (month dt)]
     @ ''/'' @ [digit (day dt div 10), digit (day dt)]"

definition formatar_data :: "env \<Rightarrow> string \<Rightarrow> string" where
  \<comment> \<open>\<open>_formatar_data\<close>: the \<open>except Exception\<close> branch returns the argument\<close>
  "formatar_data e data =
     (case dateparser_parse e data of
        Some dt \<Rightarrow> strftime_Ymd dt
      | None \<Rightarrow> data)"

section \<open>Remote classification\<close>

definition CATEGORY_KEYWORDS :: "(string \<times> string list) list" where
  "CATEGORY_KEYWORDS =
  [
    (''Alimenta'' @ [CHR 0xE7] @ [CHR 0xE3] @ ''o'',
      [''sal'' @ [CHR 0xE1] @ ''rio'',
       ''supermercado'',
       ''mercado'',
       ''padaria'',
       ''ataca'',
       ''atacad'' @ [CHR 0xE3] @ ''o'',
       ''assai'',
       ''hortifruti'',
       ''a'' @ [CHR 0xE7] @ ''ougue'',
       ''Savegnago'']),
    (''Transporte'',
      [''posto'',
       ''combust'' @ [CHR 0xED] @ ''vel'',
       ''uber'',
       ''99'',
       ''estacionamento'',
       ''ped'' @ [CHR 0xE1] @ ''gio'']),
    (''Moradia'',
      [''aluguel'',
       ''condom'' @ [CHR 0xED] @ ''nio'',
       ''imobili'' @ [CHR 0xE1] @ ''ria'']),
    (''Utilidades'',
      [''luz'',
       [CHR 0xE1] @ ''gua'',
       ''g'' @ [CHR 0xE1] @ ''s'',
       ''energia'',
       ''sanepar'',
       ''copel'']),
    (''Sa'' @ [CHR 0xFA] @ ''de'',
      [''drogaria'',
       ''farm'' @ [CHR 0xE1] @ ''cia'',
       ''hospital'',
       ''farma'',
       ''cl'' @ [CHR 0xED] @ ''nica'',
       ''laborat'' @ [CHR 0xF3] @ ''rio'',
       ''plano de sa'' @ [CHR 0xFA] @ ''de'']),
    (''Educa'' @ [CHR 0xE7] @ [CHR 0xE3] @ ''o'',
      [''escola'',
       ''universidade'',
       ''curso'']),
    (''Contas'',
      [''tarifa'',
       ''boleto'',
       ''fatura'',
       ''pagamento'']),
    (''Entretenimento'',
      [''netflix'',
       ''cinema'',
       ''restaurante'',
       ''parque'',
       ''mc donalds'']),
    (''Investimentos'',
      [''renda fixa'',
       ''a'' @ [CHR 0xE7] @ [CHR 0xF5] @ ''es'',
       ''resgate'']),
    (''Doa'' @ [CHR 0xE7] @ [CHR 0xF5] @ ''es'',
      [''igreja'',
       ''ong'',
       ''contribui'' @ [CHR 0xE7] @ [CHR 0xE3] @ ''o'']),
    (''Renda'',
      [''recebimento'',
       ''rendimento'']),
    (''Transfer'' @ [CHR 0xEA] @ ''ncia'',
      [''pix'',
       ''transfer'' @ [CHR 0xEA] @ ''ncia'',
       ''enviada''])
  ]"

definition prompt :: "(string \<times> string list) list \<Rightarrow> string \<Rightarrow> string \<Rightarrow> string" where
  \<comment> \<open>the f-string of \<open>classificar_transacao\<close>; \<open>kw\<close> is the keyword table\<close>
  "prompt kw desc tp =
     ''Voc'' @ [CHR 0xEA] @ '' '' @ [CHR 0xE9] @ '' um assistente especializado em finan''
       @ [CHR 0xE7] @ ''as. ''
     @ ''Classifique a seguinte transa'' @ [CHR 0xE7] @ [CHR 0xE3] @ ''o banc'' @ [CHR 0xE1]
       @ ''ria em uma das categorias: ''
     @ str_join '', '' (map fst kw) @ '', Outros.'' @ [CHR 0x0A]
     @ ''Descri'' @ [CHR 0xE7] @ [CHR 0xE3] @ ''o da transa'' @ [CHR 0xE7] @ [CHR 0xE3] @ ''o: ''
       @ [CHR 0x27] @ desc @ [CHR 0x27] @ [CHR 0x0A]
     @ ''Tipo da transa'' @ [CHR 0xE7] @ [CHR 0xE3] @ ''o: ''
       @ [CHR 0x27] @ tp @ [CHR 0x27] @ [CHR 0x0A]
     @ ''Responda apenas com o nome da categoria.''"

definition transferencia :: string where
  "transferencia = ''transfer'' @ [CHR 0xEA] @ ''ncia''"

definition Transferencia_recebida :: string where
  "Transferencia_recebida = ''Transfer'' @ [CHR 0xEA] @ ''ncia recebida''"

definition Transferencia_enviada :: string where
  "Transferencia_enviada = ''Transfer'' @ [CHR 0xEA] @ ''ncia enviada''"

definition classificar_transacao ::
  "env \<Rightarrow> (string \<times> string list) list \<Rightarrow> nat \<Rightarrow> string \<Rightarrow> string \<Rightarrow> error + string" where
  "classificar_transacao e kw k desc tp =
     (case groq_chat e k (prompt kw desc tp) of
        Inl msg \<Rightarrow> Inl (HTTPException 500 (ErroGroq msg))
      | Inr content \<Rightarrow>
          (let cat = str_strip content
           in if str_lower cat = transferencia
              then Inr (if str_lower tp = ''entrada'' then Transferencia_recebida
                        else Transferencia_enviada)
              else Inr (if cat \<noteq> [] then cat else ''Outros'')))"

section \<open>The CSV reader\<close>

text \<open>
  \<open>csv.DictReader(io.StringIO(text))\<close> with the default \<open>excel\<close> dialect (delimiter
  \<open>,\<close>, quote character \<open>"\<close>, doubled quotes, no escape character, not strict).
  \<open>StringIO\<close> hands the reader one line at a time, each ending after its \<open>\n\<close>; the
  reader runs the state machine of CPython's \<open>_csv\<close> module over the characters of
  the line and then over an end-of-line mark. The limit on the size of a field
  (131072 characters) is not modelled.
\<close>

fun stringio_from :: "string \<Rightarrow> string \<Rightarrow> string list" where
  "stringio_from cur [] = (if cur = [] then [] else [cur])"
| "stringio_from cur (c # cs) =
     (if c = CHR 0x0A then (cur @ [c]) # stringio_from [] cs
      else stringio_from (cur @ [c]) cs)"

definition stringio_lines :: "string \<Rightarrow> string list" where
  \<comment> \<open>the lines that iterating \<open>io.StringIO(text)\<close> yields\<close>
  "stringio_lines text = stringio_from [] text"

datatype parser_state =
  START_RECORD | START_FIELD | IN_FIELD | IN_QUOTED_FIELD | QUOTE_IN_QUOTED_FIELD | EAT_CRNL

text \<open>The reader's state: the parser state, the field being read, the fields read.\<close>

type_synonym reader = "parser_state \<times> string \<times> string list"

definition is_nl :: "char \<Rightarrow> bool" where
  "is_nl c = (c = CHR 0x0A \<or> c = CHR 0x0D)"

definition end_of_field :: "string \<Rightarrow> string list \<Rightarrow> char option \<Rightarrow> reader" where
  \<comment> \<open>on a newline or the end of the line: save the field, the record is complete\<close>
  "end_of_field fld flds c =
     ((case c of None \<Rightarrow> START_RECORD | Some _ \<Rightarrow> EAT_CRNL), [], flds @ [fld])"

definition start_field :: "string \<Rightarrow> string list \<Rightarrow> char \<Rightarrow> reader" where
  \<comment> \<open>the case \<open>START_FIELD\<close>, which the case \<open>START_RECORD\<close> falls through to\<close>
  "start_field fld flds c =
     (if is_nl c then end_of_field fld flds (Some c)
      else if c = CHR 0x22 then (IN_QUOTED_FIELD, fld, flds)
      else if c = CHR '','' then (START_FIELD, [], flds @ [fld])
      else (IN_FIELD, fld @ [c], flds))"

fun parse_process_char :: "reader \<Rightarrow> char option \<Rightarrow> reader option" where
  \<comment> \<open>one step; the character \<open>None\<close> is the end-of-line mark, the result \<open>None\<close> is \<open>_csv.Error\<close>\<close>
  "parse_process_char (START_RECORD, fld, flds) None = Some (START_RECORD, fld, flds)"
| "parse_process_char (START_RECORD, fld, flds) (Some c) =
     (if is_nl c then Some (EAT_CRNL, fld, flds)
      else Some (start_field fld flds c))"
| "parse_process_char (START_FIELD, fld, flds) None = Some (end_of_field fld flds None)"
| "parse_process_char (START_FIELD, fld, flds) (Some c) = Some (start_field fld flds c)"
| "parse_process_char (IN_FIELD, fld, flds) None = Some (end_of_field fld flds None)"
| "parse_process_char (IN_FIELD, fld, flds) (Some c) =
     (if is_nl c then Some (end_of_field fld flds (Some c))
      else if c = CHR '','' then Some (START_FIELD, [], flds @ [fld])
      else Some (IN_FIELD, fld @ [c], flds))"
| "parse_process_char (IN_QUOTED_FIELD, fld, flds) None = Some (IN_QUOTED_FIELD, fld, flds)"
| "parse_process_char (IN_QUOTED_FIELD, fld, flds) (Some c) =
     (if c = CHR 0x22 then Some (QUOTE_IN_QUOTED_FIELD, fld, flds)
      else Some (IN_QUOTED_FIELD, fld @ [c], flds))"
| "parse_process_char (QUOTE_IN_QUOTED_FIELD, fld, flds) None = Some (end_of_field fld flds None)"
| "parse_process_char (QUOTE_IN_QUOTED_FIELD, fld, flds) (Some c) =
     (if c = CHR 0x22 then Some (IN_QUOTED_FIELD, fld @ [c], flds)
      else if c = CHR '','' then Some (START_FIELD, [], flds @ [fld])
      else if is_nl c then Some (end_of_field fld flds (Some c))
      else Some (IN_FIELD, fld @ [c], flds))"
| "parse_process_char (EAT_CRNL, fld, flds) None = Some (START_RECORD, fld, flds)"
| "parse_process_char (EAT_CRNL, fld, flds) (Some c) =
     (if is_nl c then Some (EAT_CRNL, fld, flds) else None)"

fun feed_line :: "reader \<Rightarrow> string \<Rightarrow> reader option" where
  \<comment> \<open>the characters of one line, then the end-of-line mark\<close>
  "feed_line r [] = parse_process_char r None"
| "feed_line r (c # cs) =
     (case parse_process_char r (Some c) of
        None \<Rightarrow> None
      | Some r' \<Rightarrow> feed_line r' cs)"

text \<open>
  What the reader yields, in order: records, each with the value of \<open>line_num\<close> once it
  is read, and \<open>Failure\<close> last if \<open>_csv.Error\<close> is raised. The loop of the program
  consumes them one by one, so the error of a line is only met after the records before
  it have been processed.
\<close>

datatype csv_item = Record nat "string list" | Failure

fun reader_items :: "reader \<Rightarrow> nat \<Rightarrow> string list \<Rightarrow> csv_item list" where
  "reader_items (s, fld, flds) line_num [] =
     (if fld \<noteq> [] \<or> s = IN_QUOTED_FIELD then [Record line_num (flds @ [fld])] else [])"
| "reader_items r line_num (l # ls) =
     (case feed_line r l of
        None \<Rightarrow> [Failure]
      | Some (s, fld, flds) \<Rightarrow>
          if s = START_RECORD
          then Record (Suc line_num) flds # reader_items (START_RECORD, [], []) (Suc line_num) ls
          else reader_items (s, fld, flds) (Suc line_num) ls)"

definition csv_reader :: "string \<Rightarrow> csv_item list" where
  "csv_reader text = reader_items (START_RECORD, [], []) 0 (stringio_lines text)"

text \<open>
  \<open>DictReader\<close>: the first record is \<open>fieldnames\<close>; of the later ones the empty are
  dropped, and each other becomes \<open>dict(zip(fieldnames, row))\<close>, the fields a short row
  lacks set to \<open>None\<close>. A dictionary maps a key to \<open>Some v\<close> with \<open>v\<close> a string or
  \<open>None\<close>. (The entry under the key \<open>None\<close> that a long row gets is never read.)
\<close>

type_synonym row = "string \<rightharpoonup> string option"

definition row_dict :: "string list \<Rightarrow> string list \<Rightarrow> row" where
  "row_dict fieldnames r =
     fold (\<lambda>key d. d(key \<mapsto> None)) (drop (length r) fieldnames)
       (fold (\<lambda>(key, v) d. d(key \<mapsto> Some v)) (zip fieldnames r) Map.empty)"

fun is_blank :: "csv_item \<Rightarrow> bool" where
  "is_blank (Record n r) = (r = [])"
| "is_blank Failure = False"

definition dict_rows :: "csv_item list \<Rightarrow> csv_item list" where
  \<comment> \<open>\<open>while row == []: row = next(self.reader)\<close>\<close>
  "dict_rows items = filter (\<lambda>i. \<not> is_blank i) items"

section \<open>The endpoint\<close>

definition Entrada :: string where
  "Entrada = ''Entrada''"

definition Saida :: string where
  "Saida = ''Sa'' @ [CHR 0xED] @ ''da''"

definition tipo_of :: "pyfloat \<Rightarrow> string" where
  \<comment> \<open>\<open>"Entrada" if valor > 0 else "Saida"\<close>\<close>
  "tipo_of v = (if gt_zero v then Entrada else Saida)"

text \<open>
  The body of the loop over the lines of an Itau statement, for the line numbered
  \<open>lnum\<close> when \<open>k\<close> calls have been made to the remote model: \<open>Inr None\<close> is
  \<open>continue\<close>, \<open>Inr (Some t)\<close> the record appended to \<open>resultado\<close>.
\<close>

definition itau_row ::
  "env \<Rightarrow> (string \<times> string list) list \<Rightarrow> string \<Rightarrow> nat \<Rightarrow> nat \<Rightarrow> string
     \<Rightarrow> error + TransacaoCategorizada option" where
  "itau_row e kw port k lnum line =
     (case map str_strip (str_split CHR '';'' line) of
        [data, desc, raw_valor] \<Rightarrow>
          (case py_float e (str_replace CHR '','' CHR ''.'' raw_valor) of
             None \<Rightarrow> Inl (HTTPException 400 (ValorInvalido lnum))
           | Some v \<Rightarrow>
               (case classificar_transacao e kw k desc (tipo_of v) of
                  Inl err \<Rightarrow> Inl err
                | Inr cat \<Rightarrow>
                    Inr (Some \<lparr>descricao = desc, valor = v, tipo = tipo_of v, categoria = cat,
                               data_transacao = formatar_data e data, id_transacao = None,
                               portador = port\<rparr>)))
      | _ \<Rightarrow> Inr None)"

fun itau_loop ::
  "env \<Rightarrow> (string \<times> string list) list \<Rightarrow> string \<Rightarrow> nat
     \<Rightarrow> TransacaoCategorizada list \<Rightarrow> (nat \<times> string) list
     \<Rightarrow> error + TransacaoCategorizada list" where
  \<comment> \<open>\<open>for ln, line in enumerate(text.splitlines(), start=1)\<close>\<close>
  "itau_loop e kw port k resultado [] = Inr resultado"
| "itau_loop e kw port k resultado ((lnum, line) # rest) =
     (case itau_row e kw port k lnum line of
        Inl err \<Rightarrow> Inl err
      | Inr None \<Rightarrow> itau_loop e kw port k resultado rest
      | Inr (Some t) \<Rightarrow> itau_loop e kw port (Suc k) (resultado @ [t]) rest)"

definition Data :: string where
  "Data = ''Data''"

definition Descricao :: string where
  "Descricao = ''Descri'' @ [CHR 0xE7] @ [CHR 0xE3] @ ''o''"

definition Valor :: string where
  "Valor = ''Valor''"

definition Identificador :: string where
  "Identificador = ''Identificador''"

definition required :: "string set" where
  "required = {Data, Descricao, Valor, Identificador}"

text \<open>
  The body of the loop over the rows of a CSV statement. A field of a short row is
  \<open>None\<close>: \<open>None.replace\<close> raises \<open>AttributeError\<close>, the f-string of the prompt
  renders \<open>None\<close> as text, \<open>_formatar_data(None)\<close> returns \<open>None\<close> (the parser's
  \<open>TypeError\<close> is caught), and the record type then rejects a \<open>None\<close> description or
  date.
\<close>

definition csv_row ::
  "env \<Rightarrow> (string \<times> string list) list \<Rightarrow> string \<Rightarrow> string list \<Rightarrow> nat \<Rightarrow> nat
     \<Rightarrow> string list \<Rightarrow> error + TransacaoCategorizada" where
  "csv_row e kw port fieldnames k line_num r =
     (let d = row_dict fieldnames r in
      case d Valor of
        None \<Rightarrow> Inl (Uncaught KeyError)
      | Some None \<Rightarrow> Inl (Uncaught AttributeError)
      | Some (Some raw_valor) \<Rightarrow>
          (case py_float e (str_replace CHR '','' CHR ''.'' raw_valor) of
             None \<Rightarrow> Inl (HTTPException 400 (ValorInvalido line_num))
           | Some v \<Rightarrow>
               (case d Descricao of
                  None \<Rightarrow> Inl (Uncaught KeyError)
                | Some desc \<Rightarrow>
                    (case classificar_transacao e kw k (py_str desc) (tipo_of v) of
                       Inl err \<Rightarrow> Inl err
                     | Inr cat \<Rightarrow>
                         (case d Data of
                            None \<Rightarrow> Inl (Uncaught KeyError)
                          | Some data \<Rightarrow>
                              (case (desc, data) of
                                 (Some desc', Some data') \<Rightarrow>
                                   Inr \<lparr>descricao = desc', valor = v, tipo = tipo_of v,
                                        categoria = cat,
                                        data_transacao = formatar_data e data',
                                        id_transacao =
                                          (case d Identificador of None \<Rightarrow> None | Some i \<Rightarrow> i),
                                        portador = port\<rparr>
                               | _ \<Rightarrow> Inl (Uncaught ValidationError)))))))"

fun csv_loop ::
  "env \<Rightarrow> (string \<times> string list) list \<Rightarrow> string \<Rightarrow> string list \<Rightarrow> nat
     \<Rightarrow> TransacaoCategorizada list \<Rightarrow> csv_item list \<Rightarrow> error + TransacaoCategorizada list" where
  \<comment> \<open>\<open>for row in reader\<close>; the number cited on a bad value is \<open>reader.line_num\<close>\<close>
  "csv_loop e kw port fieldnames k resultado [] = Inr resultado"
| "csv_loop e kw port fieldnames k resultado (Failure # rest) = Inl (Uncaught CsvError)"
| "csv_loop e kw port fieldnames k resultado (Record line_num r # rest) =
     (case csv_row e kw port fieldnames k line_num r of
        Inl err \<Rightarrow> Inl err
      | Inr t \<Rightarrow> csv_loop e kw port fieldnames (Suc k) (resultado @ [t]) rest)"

definition csv_branch ::
  "env \<Rightarrow> (string \<times> string list) list \<Rightarrow> string \<Rightarrow> string
     \<Rightarrow> error + TransacaoCategorizada list" where
  \<comment> \<open>the \<open>else\<close> branch: the header check, then the loop\<close>
  "csv_branch e kw port text =
     (case csv_reader text of
        [] \<Rightarrow> Inl (HTTPException 400 (ColunasFaltando required))
      | Failure # rest \<Rightarrow> Inl (Uncaught CsvError)
      | Record n fieldnames # rest \<Rightarrow>
          if \<not> required \<subseteq> set fieldnames
          then Inl (HTTPException 400 (ColunasFaltando (required - set fieldnames)))
          else csv_loop e kw port fieldnames 0 [] (dict_rows rest))"

definition gera_csv :: "TransacaoCategorizada list \<Rightarrow> error + TransacaoCategorizada list" where
  \<comment> \<open>the output: \<open>resultado[0]\<close> is read for the column names before any row is written\<close>
  "gera_csv resultado = (case resultado of [] \<Rightarrow> Inl (Uncaught IndexError) | _ \<Rightarrow> Inr resultado)"

definition categorizar_kw ::
  "env \<Rightarrow> (string \<times> string list) list \<Rightarrow> string \<Rightarrow> string \<Rightarrow> string
     \<Rightarrow> error + TransacaoCategorizada list" where
  \<comment> \<open>\<open>categorizar\<close> with the keyword table as an argument; the result is the table written out\<close>
  "categorizar_kw e kw banco port text =
     (case (if str_lower banco = ''itau''
            then itau_loop e kw port 0 [] (enumerate 1 (str_splitlines text))
            else csv_branch e kw port text) of
        Inl err \<Rightarrow> Inl err
      | Inr resultado \<Rightarrow> gera_csv resultado)"

definition categorizar ::
  "env \<Rightarrow> string \<Rightarrow> string \<Rightarrow> string \<Rightarrow> error + TransacaoCategorizada list" where
  "categorizar e banco port text = categorizar_kw e CATEGORY_KEYWORDS banco port text"

section \<open>Stand-ins for the collaborators\<close>

text \<open>
  To run the model on an example, the three collaborators are replaced by tables that
  hold what the real ones return on the strings of the examples: \<open>float("-125.50")\<close> is
  \<open>-125.5\<close>, \<open>float("abc")\<close> raises \<open>ValueError\<close>, the parser reads \<open>04/03/2024\<close>
  day first, reads \<open>01/01/0999\<close> as a day of the year 999 and finds no date in
  \<open>amanha\<close>, and the remote model gives its answers in
  order, failing once they are used up.
\<close>

definition float_table :: "string \<Rightarrow> pyfloat option" where
  "float_table =
     map_of [(''-125.50'', Finite (- 251 / 2)), (''-32.00'', Finite (- 32)),
             (''100.00'', Finite 100), (''0'', Finite 0)]"

definition date_table :: "string \<Rightarrow> datetime option" where
  "date_table =
     map_of [(''04/03/2024'', \<lparr>year = 2024, month = 3, day = 4\<rparr>),
             (''2024-03-15'', \<lparr>year = 2024, month = 3, day = 15\<rparr>),
             (''01/01/0999'', \<lparr>year = 999, month = 1, day = 1\<rparr>)]"

definition answers_in_order :: "(string + string) list \<Rightarrow> nat \<Rightarrow> string \<Rightarrow> string + string" where
  "answers_in_order answers k p = (if k < length answers then answers ! k else Inl ''timeout'')"

definition example_env :: "(string + string) list \<Rightarrow> env" where
  "example_env answers =
     \<lparr>py_float = float_table, dateparser_parse = date_table,
      groq_chat = answers_in_order answers\<rparr>"

section \<open>The canonical layout of a date\<close>

definition is_digit :: "char \<Rightarrow> bool" where
  "is_digit c = (let n = (of_char c :: nat) in 48 \<le> n \<and> n \<le> 57)"

definition digits_value :: "string \<Rightarrow> nat" where
  \<comment> \<open>the number that a string of decimal digits writes\<close>
  "digits_value s = foldl (\<lambda>n c. 10 * n + (of_char c - 48)) 0 s"

definition canonical_date :: "nat \<Rightarrow> nat \<Rightarrow> nat \<Rightarrow> string \<Rightarrow> bool" where
  \<comment> \<open>\<open>YYYY/MM/DD\<close>, as the docstring of \<open>_formatar_data\<close> has it\<close>
  "canonical_date y m d s =
     (length s = 10 \<and> s ! 4 = CHR ''/'' \<and> s ! 7 = CHR ''/''
      \<and> list_all is_digit (take 4 s) \<and> digits_value (take 4 s) = y
      \<and> list_all is_digit (take 2 (drop 5 s)) \<and> digits_value (take 2 (drop 5 s)) = m
      \<and> list_all is_digit (drop 8 s) \<and> digits_value (drop 8 s) = d)"

section \<open>Notions used to state the properties\<close>

definition three_fields :: "string \<Rightarrow> bool" where
  \<comment> \<open>the line splits on \<open>;\<close> into exactly three fields\<close>
  "three_fields line = (length (str_split CHR '';'' line) = 3)"

definition numbered_three :: "nat \<times> string \<Rightarrow> bool" where
  "numbered_three p = three_fields (snd p)"

definition second_field :: "string \<Rightarrow> string" where
  \<comment> \<open>the description field of a line of three fields, unstripped\<close>
  "second_field line = str_split CHR '';'' line ! 1"

fun item_fields :: "csv_item \<Rightarrow> string list" where
  "item_fields (Record n r) = r"
| "item_fields Failure = []"

definition direction_by_sign :: "TransacaoCategorizada \<Rightarrow> bool" where
  \<comment> \<open>the direction is \<open>Entrada\<close> exactly when the amount is above zero, \<open>Saida\<close> otherwise\<close>
  "direction_by_sign t =
     ((tipo t = Entrada \<longleftrightarrow> gt_zero (valor t)) \<and> (tipo t = Saida \<longleftrightarrow> \<not> gt_zero (valor t)))"


definition mensagem :: "string list \<Rightarrow> string" where
  \<comment> \<open>the detail \<open>f"Colunas faltando: {', '.join(faltando)}"\<close>, for the order in which the
      set \<open>faltando\<close> happens to be iterated\<close>
  "mensagem faltando = ''Colunas faltando: '' @ str_join '', '' faltando"

definition complete_line :: "string \<Rightarrow> bool" where
  \<comment> \<open>the line, read from the start of a record, ends a record: no quoted field runs over
      its end and no character follows a carriage return\<close>
  "complete_line l =
     (case feed_line (START_RECORD, [], []) l of
        None \<Rightarrow> False
      | Some (s, fld, flds) \<Rightarrow> s = START_RECORD)"

definition fields_of_line :: "string \<Rightarrow> string list" where
  "fields_of_line l =
     (case feed_line (START_RECORD, [], []) l of
        None \<Rightarrow> []
      | Some (s, fld, flds) \<Rightarrow> flds)"

section \<open>Example statements\<close>

definition respostas :: "(string + string) list" where
  \<comment> \<open>two answers of the remote model\<close>
  "respostas =
     [Inr (''Alimenta'' @ [CHR 0xE7] @ [CHR 0xE3] @ ''o''),
      Inr (''Transfer'' @ [CHR 0xEA] @ ''ncia'')]"

definition extrato_itau :: string where
  \<comment> \<open>three lines, the second with two fields only\<close>
  "extrato_itau =
     ''04/03/2024;Supermercado Central;-125,50'' @ [CHR 0x0A]
     @ ''SALDO;FINAL'' @ [CHR 0x0A]
     @ ''04/03/2024; Pix recebido ;100,00''"

definition resultado_itau :: "TransacaoCategorizada list" where
  "resultado_itau =
     [\<lparr>descricao = ''Supermercado Central'', valor = Finite (- 251 / 2), tipo = Saida,
       categoria = ''Alimenta'' @ [CHR 0xE7] @ [CHR 0xE3] @ ''o'',
       data_transacao = ''2024/03/04'', id_transacao = None, portador = ''joao''\<rparr>,
      \<lparr>descricao = ''Pix recebido'', valor = Finite 100, tipo = Entrada,
       categoria = Transferencia_recebida,
       data_transacao = ''2024/03/04'', id_transacao = None, portador = ''joao''\<rparr>]"

definition extrato_itau_ruim :: string where
  \<comment> \<open>the amount of the third line is not a number\<close>
  "extrato_itau_ruim =
     ''04/03/2024;Supermercado Central;-125,50'' @ [CHR 0x0A]
     @ ''SALDO;FINAL'' @ [CHR 0x0A]
     @ ''04/03/2024;Pix recebido;abc''"

definition extrato_rodape :: string where
  \<comment> \<open>no line has three fields\<close>
  "extrato_rodape = ''SALDO;FINAL'' @ [CHR 0x0A] @ ''fim''"

definition cabecalho :: string where
  "cabecalho = ''Data,Descri'' @ [CHR 0xE7] @ [CHR 0xE3] @ ''o,Valor,Identificador'' @ [CHR 0x0A]"

definition extrato_csv :: string where
  \<comment> \<open>header, an empty line, one row with blanks around its description\<close>
  "extrato_csv =
     cabecalho @ [CHR 0x0A] @ ''2024-03-15, Uber viagem ,-32.00,abc123'' @ [CHR 0x0A]"

definition resultado_csv :: "TransacaoCategorizada list" where
  "resultado_csv =
     [\<lparr>descricao = '' Uber viagem '', valor = Finite (- 32), tipo = Saida,
       categoria = ''Transporte'', data_transacao = ''2024/03/15'',
       id_transacao = Some ''abc123'', portador = ''joao''\<rparr>]"

definition extrato_csv_ruim :: string where
  \<comment> \<open>the amount of the row on the fourth line is not a number\<close>
  "extrato_csv_ruim =
     cabecalho @ [CHR 0x0A] @ ''2024-03-15,Uber viagem,-32.00,abc123'' @ [CHR 0x0A]
     @ ''2024-03-15,Mercado,abc,def456'' @ [CHR 0x0A]"

definition extrato_sem_coluna :: string where
  \<comment> \<open>the header lacks the description and the identifier\<close>
  "extrato_sem_coluna = ''Data,Valor'' @ [CHR 0x0A] @ ''2024-03-15,-32.00'' @ [CHR 0x0A]"

definition extrato_itau_falha :: string where
  \<comment> \<open>two lines of three fields; the amount of the second is not a number\<close>
  "extrato_itau_falha =
     ''04/03/2024;Supermercado Central;-125,50'' @ [CHR 0x0A]
     @ ''04/03/2024;Pix recebido;abc''"

section \<open>Auxiliary facts\<close>

subsection \<open>Strings and digits\<close>

lemma char_lower_Entrada: "str_lower Entrada = ''entrada''"
  by (simp add: str_lower_def Entrada_def char_lower_def char_of_eq_iff)

lemma char_lower_Saida: "str_lower Saida \<noteq> ''entrada''"
  by (simp add: str_lower_def Saida_def char_lower_def char_of_eq_iff)

lemma digits_value_2: "digits_value [digit (n div 10), digit n] = n mod 100"
  using mod_mult2_eq [of n 10 10] by (simp add: digits_value_def digit_def)

lemma digits_value_4:
  "digits_value [digit (n div 1000), digit (n div 100), digit (n div 10), digit n] = n mod 10000"
proof -
  have a: "n mod 10000 = 10 * (n div 10 mod 1000) + n mod 10"
    using mod_mult2_eq [of n 10 1000] by simp
  have b: "n div 10 mod 1000 = 10 * (n div 100 mod 100) + n div 10 mod 10"
    using mod_mult2_eq [of "n div 10" 10 100] by (simp add: div_mult2_eq [symmetric])
  have c: "n div 100 mod 100 = 10 * (n div 1000 mod 10) + n div 100 mod 10"
    using mod_mult2_eq [of "n div 100" 10 10] by (simp add: div_mult2_eq [symmetric])
  show ?thesis
    by (simp add: digits_value_def digit_def a b c)
qed

lemma is_digit_digit: "is_digit (digit n)"
  by (simp add: is_digit_def digit_def)

lemma canonical_strftime:
  "1000 \<le> year dt \<Longrightarrow> year dt \<le> 9999 \<Longrightarrow> month dt \<le> 12 \<Longrightarrow> day dt \<le> 31
     \<Longrightarrow> canonical_date (year dt) (month dt) (day dt) (strftime_Ymd dt)"
  by (simp add: canonical_date_def strftime_Ymd_def strftime_Y_def digits_value_2 digits_value_4
      is_digit_digit)

lemma join_contains: "f \<in> set xs \<Longrightarrow> \<exists>a b. str_join sep xs = a @ f @ b"
proof (induction sep xs rule: str_join.induct)
  case (1 sep)
  then show ?case by simp
next
  case (2 sep x)
  then have "str_join sep [x] = [] @ f @ []" by simp
  then show ?case by blast
next
  case (3 sep x y ys)
  show ?case
  proof (cases "f = x")
    case True
    then have "str_join sep (x # y # ys) = [] @ f @ (sep @ str_join sep (y # ys))" by simp
    then show ?thesis by blast
  next
    case False
    with 3 obtain a b where "str_join sep (y # ys) = a @ f @ b" by auto
    then have "str_join sep (x # y # ys) = (x @ sep @ a) @ f @ b" by simp
    then show ?thesis by blast
  qed
qed

subsection \<open>The loop body\<close>

lemma itau_row_skip:
  "\<not> three_fields line \<Longrightarrow> itau_row e kw port k lnum line = Inr None"
proof -
  assume h: "\<not> three_fields line"
  have "length (map str_strip (str_split CHR '';'' line)) \<noteq> 3"
    using h by (simp add: three_fields_def)
  then show ?thesis
    by (auto simp: itau_row_def split: list.splits)
qed

lemma itau_row_three:
  assumes "three_fields line"
  shows "\<exists>data desc raw. str_split CHR '';'' line = [data, desc, raw]"
proof -
  from assms have "length (str_split CHR '';'' line) = 3"
    by (simp add: three_fields_def)
  then show ?thesis
    by (auto simp: length_Suc_conv numeral_3_eq_3)
qed

lemma itau_row_Some:
  assumes "itau_row e kw port k lnum line = Inr (Some t)"
  shows "\<exists>data desc raw v cat.
           str_split CHR '';'' line = [data, desc, raw]
         \<and> py_float e (str_replace CHR '','' CHR ''.'' (str_strip raw)) = Some v
         \<and> classificar_transacao e kw k (str_strip desc) (tipo_of v) = Inr cat
         \<and> t = \<lparr>descricao = str_strip desc, valor = v, tipo = tipo_of v, categoria = cat,
                data_transacao = formatar_data e (str_strip data), id_transacao = None,
                portador = port\<rparr>"
proof (cases "three_fields line")
  case False
  with assms show ?thesis by (simp add: itau_row_skip)
next
  case True
  then obtain data desc raw where s: "str_split CHR '';'' line = [data, desc, raw]"
    using itau_row_three by blast
  with assms show ?thesis
    by (auto simp: itau_row_def split: option.splits sum.splits)
qed

lemma itau_row_not_None_three:
  "three_fields line \<Longrightarrow> itau_row e kw port k lnum line \<noteq> Inr None"
proof -
  assume "three_fields line"
  then obtain data desc raw where s: "str_split CHR '';'' line = [data, desc, raw]"
    using itau_row_three by blast
  then show ?thesis
    by (auto simp: itau_row_def split: option.splits sum.splits)
qed

lemma itau_row_bad:
  "map str_strip (str_split CHR '';'' line) = [data, desc, raw]
     \<Longrightarrow> py_float e (str_replace CHR '','' CHR ''.'' raw) = None
     \<Longrightarrow> itau_row e kw port k lnum line = Inl (HTTPException 400 (ValorInvalido lnum))"
  by (simp add: itau_row_def)

lemma itau_row_tipo:
  "itau_row e kw port k lnum line = Inr (Some t) \<Longrightarrow> tipo t = tipo_of (valor t)"
  by (auto dest: itau_row_Some)

lemma itau_row_descricao:
  "itau_row e kw port k lnum line = Inr (Some t) \<Longrightarrow> descricao t = str_strip (second_field line)"
  by (auto dest!: itau_row_Some simp: second_field_def)

lemma csv_row_Inr:
  assumes "csv_row e kw port fn k n r = Inr t"
  shows "\<exists>raw v desc data cat.
           row_dict fn r Valor = Some (Some raw)
         \<and> py_float e (str_replace CHR '','' CHR ''.'' raw) = Some v
         \<and> row_dict fn r Descricao = Some (Some desc)
         \<and> row_dict fn r Data = Some (Some data)
         \<and> classificar_transacao e kw k desc (tipo_of v) = Inr cat
         \<and> t = \<lparr>descricao = desc, valor = v, tipo = tipo_of v, categoria = cat,
                data_transacao = formatar_data e data,
                id_transacao = (case row_dict fn r Identificador of None \<Rightarrow> None | Some i \<Rightarrow> i),
                portador = port\<rparr>"
  using assms
  by (auto simp: csv_row_def Let_def py_str_def split: option.splits sum.splits)

lemma csv_row_bad:
  "row_dict fn r Valor = Some (Some raw)
     \<Longrightarrow> py_float e (str_replace CHR '','' CHR ''.'' raw) = None
     \<Longrightarrow> csv_row e kw port fn k n r = Inl (HTTPException 400 (ValorInvalido n))"
  by (simp add: csv_row_def)

lemma csv_row_tipo:
  "csv_row e kw port fn k n r = Inr t \<Longrightarrow> tipo t = tipo_of (valor t)"
  by (auto dest: csv_row_Inr)

lemma csv_row_descricao:
  "csv_row e kw port fn k n r = Inr t
     \<Longrightarrow> Some (Some (descricao t)) = row_dict fn (item_fields (Record n r)) Descricao"
  by (auto dest!: csv_row_Inr)

lemma Entrada_neq_Saida: "Entrada \<noteq> Saida"
  by (simp add: Entrada_def Saida_def)




subsection \<open>The loops\<close>

lemma itau_loop_filter:
  "itau_loop e kw port k acc (filter numbered_three rows) = itau_loop e kw port k acc rows"
proof (induction rows arbitrary: k acc)
  case Nil
  show ?case by simp
next
  case (Cons p rows)
  obtain lnum line where p: "p = (lnum, line)" by (cases p)
  show ?case
  proof (cases "three_fields line")
    case True
    then show ?thesis
      using Cons.IH by (simp add: p numbered_three_def split: sum.splits option.splits)
  next
    case False
    then show ?thesis
      using Cons.IH by (simp add: p numbered_three_def itau_row_skip)
  qed
qed

lemma itau_loop_map:
  assumes fg: "\<And>k lnum line t. itau_row e kw port k lnum line = Inr (Some t) \<Longrightarrow> f t = g line"
  shows "itau_loop e kw port k acc rows = Inr ts
         \<Longrightarrow> map f ts = map f acc @ map g (filter three_fields (map snd rows))"
proof (induction rows arbitrary: k acc)
  case Nil
  then show ?case by simp
next
  case (Cons p rows)
  obtain lnum line where p: "p = (lnum, line)" by (cases p)
  show ?case
  proof (cases "itau_row e kw port k lnum line")
    case (Inl err)
    with Cons.prems show ?thesis by (simp add: p)
  next
    case (Inr r)
    show ?thesis
    proof (cases r)
      case None
      have nt: "\<not> three_fields line"
        using Inr None itau_row_not_None_three by blast
      from Cons.prems have "itau_loop e kw port k acc rows = Inr ts"
        by (simp add: p Inr None)
      from Cons.IH [OF this] show ?thesis by (simp add: p nt)
    next
      case (Some t)
      have tf: "three_fields line"
        using Inr Some itau_row_skip by fastforce
      from Cons.prems have "itau_loop e kw port (Suc k) (acc @ [t]) rows = Inr ts"
        by (simp add: p Inr Some)
      from Cons.IH [OF this] fg [of k lnum line t] Inr Some show ?thesis
        by (simp add: p tf)
    qed
  qed
qed

lemma itau_loop_all:
  assumes P: "\<And>k lnum line t. itau_row e kw port k lnum line = Inr (Some t) \<Longrightarrow> P t"
  shows "itau_loop e kw port k acc rows = Inr ts \<Longrightarrow> \<forall>t\<in>set acc. P t \<Longrightarrow> \<forall>t\<in>set ts. P t"
proof (induction rows arbitrary: k acc)
  case Nil
  then show ?case by simp
next
  case (Cons p rows)
  obtain lnum line where p: "p = (lnum, line)" by (cases p)
  show ?case
  proof (cases "itau_row e kw port k lnum line")
    case (Inl err)
    with Cons.prems show ?thesis by (simp add: p)
  next
    case (Inr r)
    show ?thesis
    proof (cases r)
      case None
      from Cons.prems have "itau_loop e kw port k acc rows = Inr ts"
        by (simp add: p Inr None)
      from Cons.IH [OF this Cons.prems(2)] show ?thesis .
    next
      case (Some t)
      from Cons.prems have l: "itau_loop e kw port (Suc k) (acc @ [t]) rows = Inr ts"
        by (simp add: p Inr Some)
      have "\<forall>x\<in>set (acc @ [t]). P x"
        using Cons.prems(2) P [of k lnum line t] Inr Some by simp
      from Cons.IH [OF l this] show ?thesis .
    qed
  qed
qed

lemma itau_loop_no_three:
  "\<forall>l\<in>set lines. \<not> three_fields l \<Longrightarrow> itau_loop e kw port k acc (enumerate n lines) = Inr acc"
  by (induction lines arbitrary: n) (simp_all add: itau_row_skip)

lemma itau_loop_prefix:
  "(\<forall>err. itau_loop e kw port k acc pre = Inl err
       \<longrightarrow> itau_loop e kw port k acc (pre @ post) = Inl err)
   \<and> (\<forall>acc'. itau_loop e kw port k acc pre = Inr acc'
       \<longrightarrow> (\<exists>k'. itau_loop e kw port k acc (pre @ post) = itau_loop e kw port k' acc' post))"
proof (induction pre arbitrary: k acc)
  case Nil
  show ?case by auto
next
  case (Cons p pre)
  obtain lnum line where p: "p = (lnum, line)" by (cases p)
  show ?case
  proof (cases "itau_row e kw port k lnum line")
    case (Inl err)
    then show ?thesis by (simp add: p)
  next
    case (Inr r)
    then show ?thesis
      using Cons.IH by (cases r) (simp_all add: p)
  qed
qed

lemma itau_loop_bad_row:
  assumes "map str_strip (str_split CHR '';'' line) = [data, desc, raw]"
    and "py_float e (str_replace CHR '','' CHR ''.'' raw) = None"
  shows "(\<exists>err. itau_loop e kw port k acc (pre @ (lnum, line) # post) = Inl err)
       \<and> (\<forall>acc'. itau_loop e kw port k acc pre = Inr acc'
             \<longrightarrow> itau_loop e kw port k acc (pre @ (lnum, line) # post)
                   = Inl (HTTPException 400 (ValorInvalido lnum)))"
proof -
  have bad: "\<And>k' acc'. itau_loop e kw port k' acc' ((lnum, line) # post)
                = Inl (HTTPException 400 (ValorInvalido lnum))"
    using itau_row_bad [OF assms] by simp
  show ?thesis
  proof (cases "itau_loop e kw port k acc pre")
    case (Inl err)
    then show ?thesis using itau_loop_prefix [of e kw port k acc pre] by auto
  next
    case (Inr acc')
    then obtain k' where "itau_loop e kw port k acc (pre @ (lnum, line) # post)
                            = itau_loop e kw port k' acc' ((lnum, line) # post)"
      using itau_loop_prefix [of e kw port k acc pre] by blast
    with bad Inr show ?thesis by simp
  qed
qed

lemma enumerate_split:
  "enumerate 1 (pre @ line # post)
     = enumerate 1 pre @ (Suc (length pre), line) # enumerate (Suc (Suc (length pre))) post"
  by (simp add: enumerate_append_eq)

lemma csv_loop_map:
  assumes fg: "\<And>k n r t. csv_row e kw port fn k n r = Inr t \<Longrightarrow> f t = g (Record n r)"
  shows "csv_loop e kw port fn k acc items = Inr ts \<Longrightarrow> map f ts = map f acc @ map g items"
proof (induction items arbitrary: k acc)
  case Nil
  then show ?case by simp
next
  case (Cons i items)
  show ?case
  proof (cases i)
    case Failure
    with Cons.prems show ?thesis by simp
  next
    case (Record n r)
    show ?thesis
    proof (cases "csv_row e kw port fn k n r")
      case (Inl err)
      with Cons.prems Record show ?thesis by simp
    next
      case (Inr t)
      from Cons.prems have "csv_loop e kw port fn (Suc k) (acc @ [t]) items = Inr ts"
        by (simp add: Record Inr)
      from Cons.IH [OF this] fg [OF Inr] show ?thesis by (simp add: Record)
    qed
  qed
qed

lemma csv_loop_all:
  assumes P: "\<And>k n r t. csv_row e kw port fn k n r = Inr t \<Longrightarrow> P t"
  shows "csv_loop e kw port fn k acc items = Inr ts \<Longrightarrow> \<forall>t\<in>set acc. P t \<Longrightarrow> \<forall>t\<in>set ts. P t"
proof (induction items arbitrary: k acc)
  case Nil
  then show ?case by simp
next
  case (Cons i items)
  show ?case
  proof (cases i)
    case Failure
    with Cons.prems show ?thesis by simp
  next
    case (Record n r)
    show ?thesis
    proof (cases "csv_row e kw port fn k n r")
      case (Inl err)
      with Cons.prems Record show ?thesis by simp
    next
      case (Inr t)
      from Cons.prems have l: "csv_loop e kw port fn (Suc k) (acc @ [t]) items = Inr ts"
        by (simp add: Record Inr)
      have "\<forall>x\<in>set (acc @ [t]). P x"
        using Cons.prems(2) P [OF Inr] by simp
      from Cons.IH [OF l this] show ?thesis .
    qed
  qed
qed

lemma csv_loop_prefix:
  "(\<forall>err. csv_loop e kw port fn k acc pre = Inl err
       \<longrightarrow> csv_loop e kw port fn k acc (pre @ post) = Inl err)
   \<and> (\<forall>acc'. csv_loop e kw port fn k acc pre = Inr acc'
       \<longrightarrow> (\<exists>k'. csv_loop e kw port fn k acc (pre @ post) = csv_loop e kw port fn k' acc' post))"
proof (induction pre arbitrary: k acc)
  case Nil
  show ?case by auto
next
  case (Cons i pre)
  show ?case
  proof (cases i)
    case Failure
    then show ?thesis by simp
  next
    case (Record n r)
    then show ?thesis
      using Cons.IH by (cases "csv_row e kw port fn k n r") simp_all
  qed
qed

lemma csv_loop_bad_row:
  assumes "row_dict fn r Valor = Some (Some raw)"
    and "py_float e (str_replace CHR '','' CHR ''.'' raw) = None"
  shows "(\<exists>err. csv_loop e kw port fn k acc (pre @ Record n r # post) = Inl err)
       \<and> (\<forall>acc'. csv_loop e kw port fn k acc pre = Inr acc'
             \<longrightarrow> csv_loop e kw port fn k acc (pre @ Record n r # post)
                   = Inl (HTTPException 400 (ValorInvalido n)))"
proof -
  have bad: "\<And>k' acc'. csv_loop e kw port fn k' acc' (Record n r # post)
                = Inl (HTTPException 400 (ValorInvalido n))"
    using csv_row_bad [OF assms] by simp
  show ?thesis
  proof (cases "csv_loop e kw port fn k acc pre")
    case (Inl err)
    then show ?thesis using csv_loop_prefix [of e kw port fn k acc pre] by auto
  next
    case (Inr acc')
    then obtain k' where "csv_loop e kw port fn k acc (pre @ Record n r # post)
                            = csv_loop e kw port fn k' acc' (Record n r # post)"
      using csv_loop_prefix [of e kw port fn k acc pre] by blast
    with bad Inr show ?thesis by simp
  qed
qed



subsection \<open>The endpoint\<close>

lemma gera_csv_Inr: "gera_csv r = Inr ts \<Longrightarrow> r = ts \<and> ts \<noteq> []"
  by (auto simp: gera_csv_def split: list.splits)

lemma gera_csv_not_empty: "gera_csv r \<noteq> Inr []"
  by (simp add: gera_csv_def split: list.splits)

lemma categorizar_kw_itau:
  "str_lower banco = ''itau'' \<Longrightarrow> categorizar_kw e kw banco port text = Inr ts
     \<Longrightarrow> itau_loop e kw port 0 [] (enumerate 1 (str_splitlines text)) = Inr ts"
  by (auto simp: categorizar_kw_def split: sum.splits dest: gera_csv_Inr)

lemma categorizar_kw_csv:
  "str_lower banco \<noteq> ''itau'' \<Longrightarrow> categorizar_kw e kw banco port text = Inr ts
     \<Longrightarrow> csv_branch e kw port text = Inr ts"
  by (auto simp: categorizar_kw_def split: sum.splits dest: gera_csv_Inr)

lemma csv_branch_Inr:
  "csv_branch e kw port text = Inr ts
     \<Longrightarrow> \<exists>h fn items. csv_reader text = Record h fn # items \<and> required \<subseteq> set fn
           \<and> csv_loop e kw port fn 0 [] (dict_rows items) = Inr ts"
  by (auto simp: csv_branch_def split: list.splits csv_item.splits if_splits)

lemma categorizar_itau_eq:
  "str_lower banco = ''itau'' \<Longrightarrow>
   categorizar e banco port text =
     (case itau_loop e CATEGORY_KEYWORDS port 0 [] (enumerate 1 (str_splitlines text)) of
        Inl err \<Rightarrow> Inl err | Inr r \<Rightarrow> gera_csv r)"
  by (simp add: categorizar_def categorizar_kw_def)

lemma categorizar_csv_eq:
  "str_lower banco \<noteq> ''itau'' \<Longrightarrow>
   categorizar e banco port text =
     (case csv_branch e CATEGORY_KEYWORDS port text of
        Inl err \<Rightarrow> Inl err | Inr r \<Rightarrow> gera_csv r)"
  by (simp add: categorizar_def categorizar_kw_def)

lemma categorizar_itau_Inr:
  "str_lower banco = ''itau'' \<Longrightarrow> categorizar e banco port text = Inr ts
     \<Longrightarrow> itau_loop e CATEGORY_KEYWORDS port 0 [] (enumerate 1 (str_splitlines text)) = Inr ts"
  unfolding categorizar_def by (rule categorizar_kw_itau)

lemma categorizar_csv_Inr:
  "str_lower banco \<noteq> ''itau'' \<Longrightarrow> categorizar e banco port text = Inr ts
     \<Longrightarrow> csv_branch e CATEGORY_KEYWORDS port text = Inr ts"
  unfolding categorizar_def by (rule categorizar_kw_csv)




subsection \<open>The keyword table\<close>

lemma prompt_keys: "map fst kw1 = map fst kw2 \<Longrightarrow> prompt kw1 desc tp = prompt kw2 desc tp"
  by (simp add: prompt_def)

lemma classificar_keys:
  "map fst kw1 = map fst kw2
     \<Longrightarrow> classificar_transacao e kw1 k desc tp = classificar_transacao e kw2 k desc tp"
  by (simp add: classificar_transacao_def prompt_keys [of kw1 kw2])

lemma itau_row_keys:
  "map fst kw1 = map fst kw2 \<Longrightarrow> itau_row e kw1 port k lnum line = itau_row e kw2 port k lnum line"
  by (auto simp: itau_row_def classificar_keys [of kw1 kw2]
      split: list.splits option.splits sum.splits)

lemma csv_row_keys:
  "map fst kw1 = map fst kw2 \<Longrightarrow> csv_row e kw1 port fn k n r = csv_row e kw2 port fn k n r"
  by (auto simp: csv_row_def Let_def classificar_keys [of kw1 kw2]
      split: option.splits sum.splits)

lemma itau_loop_keys:
  "map fst kw1 = map fst kw2
     \<Longrightarrow> itau_loop e kw1 port k acc rows = itau_loop e kw2 port k acc rows"
proof (induction rows arbitrary: k acc)
  case Nil
  show ?case by simp
next
  case (Cons p rows)
  obtain lnum line where p: "p = (lnum, line)" by (cases p)
  show ?case
    using Cons.IH [OF Cons.prems] itau_row_keys [OF Cons.prems]
    by (simp add: p split: sum.splits option.splits)
qed

lemma csv_loop_keys:
  "map fst kw1 = map fst kw2
     \<Longrightarrow> csv_loop e kw1 port fn k acc items = csv_loop e kw2 port fn k acc items"
proof (induction items arbitrary: k acc)
  case Nil
  show ?case by simp
next
  case (Cons i items)
  show ?case
    using Cons.IH [OF Cons.prems] csv_row_keys [OF Cons.prems]
    by (cases i) (simp_all split: sum.splits)
qed

subsection \<open>The line numbers of the CSV reader\<close>

text \<open>
  When every line is a record of its own, the record read from the \<open>k\<close>-th line carries
  the number \<open>k\<close>: \<open>reader.line_num\<close> counts the lines of the file from 1, the header and
  the empty lines included.
\<close>

lemma reader_items_complete_lines:
  "\<forall>l\<in>set ls. complete_line l
     \<Longrightarrow> reader_items (START_RECORD, [], []) n ls
         = map (\<lambda>p. Record (fst p) (fields_of_line (snd p))) (enumerate (Suc n) ls)"
proof (induction ls arbitrary: n)
  case Nil
  show ?case by simp
next
  case (Cons l ls)
  from Cons.prems obtain fld flds where
    f: "feed_line (START_RECORD, [], []) l = Some (START_RECORD, fld, flds)"
    by (auto simp: complete_line_def split: option.splits)
  from Cons.prems have "\<forall>l\<in>set ls. complete_line l" by simp
  from Cons.IH [OF this] f show ?case
    by (simp add: fields_of_line_def)
qed

lemma csv_reader_complete_lines:
  "\<forall>l\<in>set (stringio_lines text). complete_line l
     \<Longrightarrow> csv_reader text
         = map (\<lambda>p. Record (fst p) (fields_of_line (snd p))) (enumerate 1 (stringio_lines text))"
  by (simp add: csv_reader_def reader_items_complete_lines)

subsection \<open>Runs of the examples\<close>

lemma lower_Itau: "str_lower ''Itau'' = ''itau''"
  by code_simp

lemma lower_nubank: "str_lower ''nubank'' \<noteq> ''itau''"
  by code_simp


lemma run_itau:
  "categorizar (example_env respostas) ''Itau'' ''joao'' extrato_itau = Inr resultado_itau"
  by code_simp

lemma run_csv:
  "categorizar (example_env [Inr ''Transporte'']) ''nubank'' ''joao'' extrato_csv
     = Inr resultado_csv"
  by code_simp

lemma reader_csv:
  "csv_reader extrato_csv =
     [Record 1 [Data, Descricao, Valor, Identificador], Record 2 [],
      Record 3 [''2024-03-15'', '' Uber viagem '', ''-32.00'', ''abc123'']]"
  by code_simp

section \<open>The format selector\<close>




section \<open>Direction and amount\<close>

text \<open>
  Claim C2. Every record that the body of either loop builds, and therefore every
  record of the table returned, has the direction \<open>Entrada\<close> if and only if its amount
  is above zero and \<open>Saida\<close> otherwise: the direction is computed from the amount alone.
\<close>

theorem tipo_iff_valor_positive:
  "(itau_row e kw port k lnum line = Inr (Some t) \<longrightarrow> direction_by_sign t)
   \<and> (csv_row e kw port fn k n r = Inr t \<longrightarrow> direction_by_sign t)
   \<and> (categorizar e banco port text = Inr ts \<longrightarrow> (\<forall>t\<in>set ts. direction_by_sign t))"
proof -
  have sign: "\<And>t. tipo t = tipo_of (valor t) \<Longrightarrow> direction_by_sign t"
    using Entrada_neq_Saida by (auto simp: direction_by_sign_def tipo_of_def)
  have "\<forall>t\<in>set ts. direction_by_sign t" if run: "categorizar e banco port text = Inr ts"
  proof (cases "str_lower banco = ''itau''")
    case True
    have "itau_loop e CATEGORY_KEYWORDS port 0 [] (enumerate 1 (str_splitlines text)) = Inr ts"
      using run True categorizar_itau_Inr by blast
    from itau_loop_all [where P = direction_by_sign, OF _ this]
    show ?thesis using itau_row_tipo sign by simp
  next
    case False
    have "csv_branch e CATEGORY_KEYWORDS port text = Inr ts"
      using run False categorizar_csv_Inr by blast
    then obtain fn' items where
      "csv_loop e CATEGORY_KEYWORDS port fn' 0 [] (dict_rows items) = Inr ts"
      using csv_branch_Inr by blast
    from csv_loop_all [where P = direction_by_sign, OF _ this]
    show ?thesis using csv_row_tipo sign by simp
  qed
  then show ?thesis
    using itau_row_tipo csv_row_tipo sign by blast
qed

theorem tipo_iff_valor_positive_witness:
  "itau_row (example_env respostas) CATEGORY_KEYWORDS ''joao'' 1 3
      ''04/03/2024; Pix recebido ;100,00'' = Inr (Some (resultado_itau ! 1))
   \<and> direction_by_sign (resultado_itau ! 1)
   \<and> csv_row (example_env [Inr ''Transporte'']) CATEGORY_KEYWORDS ''joao''
        [Data, Descricao, Valor, Identificador] 0 3
        [''2024-03-15'', '' Uber viagem '', ''-32.00'', ''abc123''] = Inr (resultado_csv ! 0)
   \<and> direction_by_sign (resultado_csv ! 0)
   \<and> categorizar (example_env respostas) ''Itau'' ''joao'' extrato_itau = Inr resultado_itau
   \<and> list_all direction_by_sign resultado_itau
   \<and> map tipo resultado_itau = [Saida, Entrada]
   \<and> map (\<lambda>t. gt_zero (valor t)) resultado_itau = [False, True]"
proof -
  have a: "itau_row (example_env respostas) CATEGORY_KEYWORDS ''joao'' 1 3
      ''04/03/2024; Pix recebido ;100,00'' = Inr (Some (resultado_itau ! 1))"
    by code_simp
  have b: "csv_row (example_env [Inr ''Transporte'']) CATEGORY_KEYWORDS ''joao''
        [Data, Descricao, Valor, Identificador] 0 3
        [''2024-03-15'', '' Uber viagem '', ''-32.00'', ''abc123''] = Inr (resultado_csv ! 0)"
    by code_simp
  have c: "map tipo resultado_itau = [Saida, Entrada]"
    by (simp add: resultado_itau_def)
  have d: "map (\<lambda>t. gt_zero (valor t)) resultado_itau = [False, True]"
    by (simp add: resultado_itau_def)
  note T = tipo_iff_valor_positive [of "example_env respostas" CATEGORY_KEYWORDS "''joao''" 1 3
      "''04/03/2024; Pix recebido ;100,00''" "resultado_itau ! 1"]
  note U = tipo_iff_valor_positive [of "example_env [Inr ''Transporte'']" CATEGORY_KEYWORDS
      "''joao''" 0 _ _ "resultado_csv ! 0" "[Data, Descricao, Valor, Identificador]" 3
      "[''2024-03-15'', '' Uber viagem '', ''-32.00'', ''abc123'']"]
  note V = tipo_iff_valor_positive [of "example_env respostas" _ "''joao''" _ _ _ _ _ _ _
      "''Itau''" extrato_itau resultado_itau]
  from T a have "direction_by_sign (resultado_itau ! 1)" by blast
  moreover from U b have "direction_by_sign (resultado_csv ! 0)" by blast
  moreover from V run_itau have "list_all direction_by_sign resultado_itau"
    unfolding list_all_iff by blast
  ultimately show ?thesis
    using a b c d run_itau by blast
qed

section \<open>Amounts that are not numbers\<close>

text \<open>
  Claim C3, as amended. In both formats, a row whose amount \<open>float\<close> rejects makes the
  invocation end with an error and no table. When the loop reaches that row, the rows
  before it having been processed without error, the error is the status 400 with the
  detail "Valor invalido na linha" and the number of the row: the number of the line,
  counted from 1, for an Itau statement, and \<open>reader.line_num\<close> for a CSV statement.
\<close>

theorem bad_amount_aborts:
  "(str_lower banco = ''itau'' \<and> str_splitlines text = pre @ line # post
      \<and> map str_strip (str_split CHR '';'' line) = [data, desc, raw]
      \<and> py_float e (str_replace CHR '','' CHR ''.'' raw) = None
    \<longrightarrow> (\<exists>err. categorizar e banco port text = Inl err)
        \<and> (\<forall>acc. itau_loop e CATEGORY_KEYWORDS port 0 [] (enumerate 1 pre) = Inr acc
              \<longrightarrow> categorizar e banco port text
                    = Inl (HTTPException 400 (ValorInvalido (Suc (length pre))))))
   \<and> (str_lower banco \<noteq> ''itau'' \<and> csv_reader text = Record h fn # items
        \<and> required \<subseteq> set fn \<and> dict_rows items = before @ Record n r # after
        \<and> row_dict fn r Valor = Some (Some raw')
        \<and> py_float e (str_replace CHR '','' CHR ''.'' raw') = None
      \<longrightarrow> (\<exists>err. categorizar e banco port text = Inl err)
          \<and> (\<forall>acc. csv_loop e CATEGORY_KEYWORDS port fn 0 [] before = Inr acc
                \<longrightarrow> categorizar e banco port text = Inl (HTTPException 400 (ValorInvalido n))))"
proof (intro conjI impI)
  assume a: "str_lower banco = ''itau'' \<and> str_splitlines text = pre @ line # post
      \<and> map str_strip (str_split CHR '';'' line) = [data, desc, raw]
      \<and> py_float e (str_replace CHR '','' CHR ''.'' raw) = None"
  then have b: "(\<exists>err. itau_loop e CATEGORY_KEYWORDS port 0 []
                    (enumerate 1 pre @ (Suc (length pre), line)
                       # enumerate (Suc (Suc (length pre))) post) = Inl err)
       \<and> (\<forall>acc'. itau_loop e CATEGORY_KEYWORDS port 0 [] (enumerate 1 pre) = Inr acc'
             \<longrightarrow> itau_loop e CATEGORY_KEYWORDS port 0 []
                    (enumerate 1 pre @ (Suc (length pre), line)
                       # enumerate (Suc (Suc (length pre))) post)
                   = Inl (HTTPException 400 (ValorInvalido (Suc (length pre)))))"
    using itau_loop_bad_row [where line = line and data = data and desc = desc and raw = raw
        and e = e and kw = CATEGORY_KEYWORDS and port = port and k = 0 and acc = "[]"
        and pre = "enumerate 1 pre" and lnum = "Suc (length pre)"
        and post = "enumerate (Suc (Suc (length pre))) post"]
    by simp
  have c: "categorizar e banco port text =
     (case itau_loop e CATEGORY_KEYWORDS port 0 []
             (enumerate 1 pre @ (Suc (length pre), line)
                # enumerate (Suc (Suc (length pre))) post) of
        Inl err \<Rightarrow> Inl err | Inr r \<Rightarrow> gera_csv r)"
    using a categorizar_itau_eq [of banco e port "text"] enumerate_split [of pre line post]
    by simp
  from b c show "\<exists>err. categorizar e banco port text = Inl err" by auto
  from b c show "\<forall>acc. itau_loop e CATEGORY_KEYWORDS port 0 [] (enumerate 1 pre) = Inr acc
              \<longrightarrow> categorizar e banco port text
                    = Inl (HTTPException 400 (ValorInvalido (Suc (length pre))))"
    by auto
next
  assume a: "str_lower banco \<noteq> ''itau'' \<and> csv_reader text = Record h fn # items
        \<and> required \<subseteq> set fn \<and> dict_rows items = before @ Record n r # after
        \<and> row_dict fn r Valor = Some (Some raw')
        \<and> py_float e (str_replace CHR '','' CHR ''.'' raw') = None"
  then have b: "(\<exists>err. csv_loop e CATEGORY_KEYWORDS port fn 0 [] (before @ Record n r # after)
                    = Inl err)
       \<and> (\<forall>acc'. csv_loop e CATEGORY_KEYWORDS port fn 0 [] before = Inr acc'
             \<longrightarrow> csv_loop e CATEGORY_KEYWORDS port fn 0 [] (before @ Record n r # after)
                   = Inl (HTTPException 400 (ValorInvalido n)))"
    using csv_loop_bad_row [where fn = fn and r = r and raw = raw' and e = e
        and kw = CATEGORY_KEYWORDS and port = port and k = 0 and acc = "[]"
        and pre = before and n = n and post = after]
    by simp
  have c: "categorizar e banco port text =
     (case csv_loop e CATEGORY_KEYWORDS port fn 0 [] (before @ Record n r # after) of
        Inl err \<Rightarrow> Inl err | Inr r \<Rightarrow> gera_csv r)"
    using a by (simp add: categorizar_csv_eq csv_branch_def)
  from b c show "\<exists>err. categorizar e banco port text = Inl err" by auto
  from b c show "\<forall>acc. csv_loop e CATEGORY_KEYWORDS port fn 0 [] before = Inr acc
                \<longrightarrow> categorizar e banco port text = Inl (HTTPException 400 (ValorInvalido n))"
    by auto
qed

theorem bad_amount_aborts_witness:
  "str_lower ''Itau'' = ''itau''
   \<and> str_splitlines extrato_itau_ruim
       = [''04/03/2024;Supermercado Central;-125,50'', ''SALDO;FINAL'']
         @ ''04/03/2024;Pix recebido;abc'' # []
   \<and> map str_strip (str_split CHR '';'' ''04/03/2024;Pix recebido;abc'')
       = [''04/03/2024'', ''Pix recebido'', ''abc'']
   \<and> py_float (example_env respostas) (str_replace CHR '','' CHR ''.'' ''abc'') = None
   \<and> itau_loop (example_env respostas) CATEGORY_KEYWORDS ''joao'' 0 []
        (enumerate 1 [''04/03/2024;Supermercado Central;-125,50'', ''SALDO;FINAL''])
       = Inr [hd resultado_itau]
   \<and> categorizar (example_env respostas) ''Itau'' ''joao'' extrato_itau_ruim
       = Inl (HTTPException 400 (ValorInvalido 3))
   \<and> str_lower ''nubank'' \<noteq> ''itau''
   \<and> csv_reader extrato_csv_ruim
       = Record 1 [Data, Descricao, Valor, Identificador]
         # [Record 2 [], Record 3 [''2024-03-15'', ''Uber viagem'', ''-32.00'', ''abc123''],
            Record 4 [''2024-03-15'', ''Mercado'', ''abc'', ''def456'']]
   \<and> categorizar (example_env [Inr ''Transporte'']) ''nubank'' ''joao'' extrato_csv_ruim
       = Inl (HTTPException 400 (ValorInvalido 4))"
proof -
  let ?pre = "[''04/03/2024;Supermercado Central;-125,50'', ''SALDO;FINAL'']"
  let ?fn = "[Data, Descricao, Valor, Identificador]"
  let ?good = "Record 3 [''2024-03-15'', ''Uber viagem'', ''-32.00'', ''abc123'']"
  let ?bad = "[''2024-03-15'', ''Mercado'', ''abc'', ''def456'']"
  have a1: "str_splitlines extrato_itau_ruim = ?pre @ ''04/03/2024;Pix recebido;abc'' # []"
    by code_simp
  have a2: "map str_strip (str_split CHR '';'' ''04/03/2024;Pix recebido;abc'')
       = [''04/03/2024'', ''Pix recebido'', ''abc'']"
    by code_simp
  have a3: "py_float (example_env respostas) (str_replace CHR '','' CHR ''.'' ''abc'') = None"
    by code_simp
  have a4: "itau_loop (example_env respostas) CATEGORY_KEYWORDS ''joao'' 0 [] (enumerate 1 ?pre)
       = Inr [hd resultado_itau]"
    by code_simp
  have a5: "Suc (length ?pre) = 3"
    by simp
  have A: "categorizar (example_env respostas) ''Itau'' ''joao'' extrato_itau_ruim
       = Inl (HTTPException 400 (ValorInvalido 3))"
    using bad_amount_aborts [of "''Itau''" extrato_itau_ruim ?pre
        "''04/03/2024;Pix recebido;abc''" "[]" "''04/03/2024''" "''Pix recebido''" "''abc''"
        "example_env respostas" "''joao''"] lower_Itau a1 a2 a3 a4 a5
    by metis
  have b1: "csv_reader extrato_csv_ruim = Record 1 ?fn # [Record 2 [], ?good, Record 4 ?bad]"
    by code_simp
  have b2: "required \<subseteq> set ?fn"
    by (simp add: required_def)
  have b3: "dict_rows [Record 2 [], ?good, Record 4 ?bad] = [?good] @ Record 4 ?bad # []"
    by code_simp
  have b4: "row_dict ?fn ?bad Valor = Some (Some ''abc'')"
    by code_simp
  have b5: "py_float (example_env [Inr ''Transporte'']) (str_replace CHR '','' CHR ''.'' ''abc'')
              = None"
    by code_simp
  have b6: "csv_loop (example_env [Inr ''Transporte'']) CATEGORY_KEYWORDS ''joao'' ?fn 0 [] [?good]
              = Inr [\<lparr>descricao = ''Uber viagem'', valor = Finite (- 32), tipo = Saida,
                      categoria = ''Transporte'', data_transacao = ''2024/03/15'',
                      id_transacao = Some ''abc123'', portador = ''joao''\<rparr>]"
    by code_simp
  have B: "categorizar (example_env [Inr ''Transporte'']) ''nubank'' ''joao'' extrato_csv_ruim
       = Inl (HTTPException 400 (ValorInvalido 4))"
    using bad_amount_aborts [of "''nubank''" extrato_csv_ruim _ _ _ _ _ _
        "example_env [Inr ''Transporte'']" "''joao''" 1 ?fn
        "[Record 2 [], ?good, Record 4 ?bad]" "[?good]" 4 ?bad "[]" "''abc''"]
      lower_nubank b1 b2 b3 b4 b5 b6
    by blast
  from A B a1 a2 a3 a4 b1 lower_Itau lower_nubank show ?thesis
    by blast
qed

text \<open>
  Claim C3 as stated fails: the rows are processed in order and the first error ends the
  invocation. When the remote model fails on the first line, the error is the status 500
  of \<open>classificar_transacao\<close>, and the second line, whose amount is not a number, is
  never read: no error cites it.
\<close>

theorem bad_amount_not_cited_counterexample:
  "str_lower ''Itau'' = ''itau''
   \<and> str_splitlines extrato_itau_falha
       = [''04/03/2024;Supermercado Central;-125,50'', ''04/03/2024;Pix recebido;abc'']
   \<and> map str_strip (str_split CHR '';'' ''04/03/2024;Pix recebido;abc'')
       = [''04/03/2024'', ''Pix recebido'', ''abc'']
   \<and> py_float (example_env []) (str_replace CHR '','' CHR ''.'' ''abc'') = None
   \<and> categorizar (example_env []) ''Itau'' ''joao'' extrato_itau_falha
       = Inl (HTTPException 500 (ErroGroq ''timeout''))
   \<and> categorizar (example_env []) ''Itau'' ''joao'' extrato_itau_falha
       \<noteq> Inl (HTTPException 400 (ValorInvalido 2))"
  by code_simp

section \<open>Transfers\<close>

text \<open>
  Claim C4. When the text that the remote model returns is, once stripped and put in
  lower case, the transfer category \<open>transferencia\<close>, the category returned is
  \<open>Transferencia recebida\<close> for the direction \<open>Entrada\<close> and
  \<open>Transferencia enviada\<close> for the direction \<open>Saida\<close>.
\<close>

theorem classificar_transferencia:
  assumes "groq_chat e k (prompt kw desc tp) = Inr content"
    and "str_lower (str_strip content) = transferencia"
  shows "(tp = Entrada \<longrightarrow> classificar_transacao e kw k desc tp = Inr Transferencia_recebida)
       \<and> (tp = Saida \<longrightarrow> classificar_transacao e kw k desc tp = Inr Transferencia_enviada)"
  using assms by (auto simp: classificar_transacao_def char_lower_Entrada char_lower_Saida)

theorem classificar_transferencia_witness:
  "groq_chat (example_env [Inr ('' TRANSFER'' @ [CHR 0xCA] @ ''NCIA '')]) 0
      (prompt CATEGORY_KEYWORDS ''PIX JOAO'' Entrada) = Inr ('' TRANSFER'' @ [CHR 0xCA] @ ''NCIA '')
   \<and> groq_chat (example_env [Inr ('' TRANSFER'' @ [CHR 0xCA] @ ''NCIA '')]) 0
      (prompt CATEGORY_KEYWORDS ''PIX JOAO'' Saida) = Inr ('' TRANSFER'' @ [CHR 0xCA] @ ''NCIA '')
   \<and> str_lower (str_strip ('' TRANSFER'' @ [CHR 0xCA] @ ''NCIA '')) = transferencia
   \<and> classificar_transacao (example_env [Inr ('' TRANSFER'' @ [CHR 0xCA] @ ''NCIA '')])
        CATEGORY_KEYWORDS 0 ''PIX JOAO'' Entrada = Inr Transferencia_recebida
   \<and> classificar_transacao (example_env [Inr ('' TRANSFER'' @ [CHR 0xCA] @ ''NCIA '')])
        CATEGORY_KEYWORDS 0 ''PIX JOAO'' Saida = Inr Transferencia_enviada"
proof -
  let ?c = "'' TRANSFER'' @ [CHR 0xCA] @ ''NCIA ''"
  have h1: "groq_chat (example_env [Inr ?c]) 0 (prompt CATEGORY_KEYWORDS ''PIX JOAO'' Entrada) = Inr ?c"
    by (simp add: example_env_def answers_in_order_def)
  have h1': "groq_chat (example_env [Inr ?c]) 0 (prompt CATEGORY_KEYWORDS ''PIX JOAO'' Saida) = Inr ?c"
    by (simp add: example_env_def answers_in_order_def)
  have h2: "str_lower (str_strip ?c) = transferencia"
    by (simp add: str_lower_def str_strip_def isspace_def char_lower_def transferencia_def
        char_of_eq_iff)
  from classificar_transferencia [OF h1 h2]
  have a: "classificar_transacao (example_env [Inr ?c]) CATEGORY_KEYWORDS 0 ''PIX JOAO'' Entrada
          = Inr Transferencia_recebida"
    by blast
  from classificar_transferencia [OF h1' h2]
  have b: "classificar_transacao (example_env [Inr ?c]) CATEGORY_KEYWORDS 0 ''PIX JOAO'' Saida
          = Inr Transferencia_enviada"
    by blast
  from a b h1 h1' h2 show ?thesis by blast
qed

section \<open>Missing columns\<close>

text \<open>
  Claim C5. When the header of a CSV statement lacks one of the four required names (or
  the file has no header at all), the invocation ends with the status 400 and the detail
  "Colunas faltando", whatever the rows below the header and whatever the collaborators
  would answer: no row is processed. The detail carries exactly the missing names, and
  its text contains each of them, in whatever order the set is iterated.
\<close>

theorem missing_columns_abort:
  assumes "str_lower banco \<noteq> ''itau''"
    and "csv_reader text = [] \<and> fn = [] \<or> (\<exists>h items. csv_reader text = Record h fn # items)"
    and "\<not> required \<subseteq> set fn"
  shows "categorizar e banco port text
           = Inl (HTTPException 400 (ColunasFaltando (required - set fn)))
       \<and> required - set fn \<noteq> {}
       \<and> (\<forall>xs f. set xs = required - set fn \<and> f \<in> required \<and> f \<notin> set fn
             \<longrightarrow> (\<exists>a b. mensagem xs = a @ f @ b))"
proof (intro conjI allI impI)
  have "csv_branch e CATEGORY_KEYWORDS port text
          = Inl (HTTPException 400 (ColunasFaltando (required - set fn)))"
  proof -
    from assms(2) consider "csv_reader text = []" "fn = []"
      | h items where "csv_reader text = Record h fn # items"
      by blast
    then show ?thesis
    proof cases
      case 1
      then show ?thesis by (simp add: csv_branch_def)
    next
      case 2
      with assms(3) show ?thesis by (simp add: csv_branch_def)
    qed
  qed
  then show "categorizar e banco port text
           = Inl (HTTPException 400 (ColunasFaltando (required - set fn)))"
    using assms(1) by (simp add: categorizar_csv_eq)
  show "required - set fn \<noteq> {}"
    using assms(3) by blast
next
  fix xs f
  assume a: "set xs = required - set fn \<and> f \<in> required \<and> f \<notin> set fn"
  then have "f \<in> set xs" by simp
  then obtain a b where "str_join '', '' xs = a @ f @ b"
    using join_contains by blast
  then have "mensagem xs = (''Colunas faltando: '' @ a) @ f @ b"
    by (simp add: mensagem_def)
  then show "\<exists>a b. mensagem xs = a @ f @ b" by blast
qed

theorem missing_columns_abort_witness:
  "str_lower ''nubank'' \<noteq> ''itau''
   \<and> csv_reader extrato_sem_coluna
       = [Record 1 [Data, Valor], Record 2 [''2024-03-15'', ''-32.00'']]
   \<and> \<not> required \<subseteq> set [Data, Valor]
   \<and> required - set [Data, Valor] = {Descricao, Identificador}
   \<and> categorizar (example_env respostas) ''nubank'' ''joao'' extrato_sem_coluna
       = Inl (HTTPException 400 (ColunasFaltando {Descricao, Identificador}))
   \<and> (\<exists>a b. mensagem [Identificador, Descricao] = a @ Descricao @ b)
   \<and> (\<exists>a b. mensagem [Identificador, Descricao] = a @ Identificador @ b)"
proof -
  have r: "csv_reader extrato_sem_coluna
       = [Record 1 [Data, Valor], Record 2 [''2024-03-15'', ''-32.00'']]"
    by code_simp
  have n: "\<not> required \<subseteq> set [Data, Valor]"
    by (simp add: required_def Data_def Valor_def Descricao_def Identificador_def)
  have m: "required - set [Data, Valor] = {Descricao, Identificador}"
    by (auto simp: required_def Data_def Valor_def Descricao_def Identificador_def)
  have s: "set [Identificador, Descricao] = required - set [Data, Valor]"
    using m by auto
  have i: "Descricao \<in> required \<and> Descricao \<notin> set [Data, Valor]
         \<and> Identificador \<in> required \<and> Identificador \<notin> set [Data, Valor]"
    using m by blast
  have t: "categorizar (example_env respostas) ''nubank'' ''joao'' extrato_sem_coluna
             = Inl (HTTPException 400 (ColunasFaltando (required - set [Data, Valor])))
         \<and> required - set [Data, Valor] \<noteq> {}
         \<and> (\<forall>xs f. set xs = required - set [Data, Valor] \<and> f \<in> required \<and> f \<notin> set [Data, Valor]
               \<longrightarrow> (\<exists>a b. mensagem xs = a @ f @ b))"
    using missing_columns_abort [OF lower_nubank _ n, of extrato_sem_coluna
        "example_env respostas" "''joao''"] r
    by blast
  from t s i have "\<exists>a b. mensagem [Identificador, Descricao] = a @ Descricao @ b"
    by blast
  moreover from t s i have "\<exists>a b. mensagem [Identificador, Descricao] = a @ Identificador @ b"
    by blast
  ultimately show ?thesis
    using t m n r lower_nubank by simp
qed

section \<open>Lines that are skipped\<close>

text \<open>
  Claim C6. In an Itau statement the lines that do not split into exactly three fields
  are skipped without error: the outcome is that of the loop run over the lines of three
  fields only, each keeping its number, and a table returned has one record for each of
  those lines.
\<close>

theorem itau_skips_other_lines:
  assumes "str_lower banco = ''itau''"
  shows "categorizar e banco port text =
           (case itau_loop e CATEGORY_KEYWORDS port 0 []
                   (filter numbered_three (enumerate 1 (str_splitlines text))) of
              Inl err \<Rightarrow> Inl err | Inr r \<Rightarrow> gera_csv r)
       \<and> (\<forall>ts. categorizar e banco port text = Inr ts
              \<longrightarrow> length ts = length (filter three_fields (str_splitlines text)))"
proof
  show "categorizar e banco port text =
           (case itau_loop e CATEGORY_KEYWORDS port 0 []
                   (filter numbered_three (enumerate 1 (str_splitlines text))) of
              Inl err \<Rightarrow> Inl err | Inr r \<Rightarrow> gera_csv r)"
    using assms by (simp only: itau_loop_filter categorizar_itau_eq)
  show "\<forall>ts. categorizar e banco port text = Inr ts
              \<longrightarrow> length ts = length (filter three_fields (str_splitlines text))"
  proof (intro allI impI)
    fix ts
    assume "categorizar e banco port text = Inr ts"
    then have "itau_loop e CATEGORY_KEYWORDS port 0 [] (enumerate 1 (str_splitlines text)) = Inr ts"
      using assms categorizar_itau_Inr by blast
    from itau_loop_map [where f = "\<lambda>t. ()" and g = "\<lambda>l. ()", OF _ this]
    have "map (\<lambda>t. ()) ts = map (\<lambda>l. ()) (filter three_fields (str_splitlines text))"
      by simp
    then show "length ts = length (filter three_fields (str_splitlines text))"
      using map_eq_imp_length_eq by blast
  qed
qed

theorem itau_skips_other_lines_witness:
  "str_lower ''Itau'' = ''itau''
   \<and> categorizar (example_env respostas) ''Itau'' ''joao'' extrato_itau = Inr resultado_itau
   \<and> length resultado_itau = length (filter three_fields (str_splitlines extrato_itau))
   \<and> filter three_fields (str_splitlines extrato_itau)
       = [''04/03/2024;Supermercado Central;-125,50'', ''04/03/2024; Pix recebido ;100,00'']"
proof -
  have f: "filter three_fields (str_splitlines extrato_itau)
       = [''04/03/2024;Supermercado Central;-125,50'', ''04/03/2024; Pix recebido ;100,00'']"
    by code_simp
  from itau_skips_other_lines [OF lower_Itau, of "example_env respostas" "''joao''" extrato_itau]
  have "length resultado_itau = length (filter three_fields (str_splitlines extrato_itau))"
    using run_itau by blast
  with f lower_Itau run_itau show ?thesis by blast
qed

section \<open>Dates\<close>

text \<open>
  Claim C7. The date normaliser is to return, for every string, the string itself when
  the parser fails and otherwise the date in the one layout \<open>YYYY/MM/DD\<close> that the
  docstring of \<open>_formatar_data\<close> promises. It does never raise, and it returns its
  argument on a failure; but \<open>strftime\<close> writes the year without padding, so that a date
  of a year below 1000 comes out on fewer digits. For \<open>01/01/0999\<close>, which the parser
  reads as the first of January of the year 999, the result is \<open>999/01/01\<close>, nine
  characters long, and not \<open>0999/01/01\<close>.
\<close>

theorem formatar_data_short_year:
  "dateparser_parse (example_env []) ''01/01/0999'' = Some \<lparr>year = 999, month = 1, day = 1\<rparr>
   \<and> formatar_data (example_env []) ''01/01/0999'' = ''999/01/01''
   \<and> length (formatar_data (example_env []) ''01/01/0999'') = 9
   \<and> \<not> canonical_date 999 1 1 (formatar_data (example_env []) ''01/01/0999'')"
  by code_simp

text \<open>
  What the function does on every string: it is total, returns the argument when the
  parser fails, and \<open>strftime\<close> of the date when it succeeds, which has the layout
  \<open>YYYY/MM/DD\<close> for the years from 1000 on.
\<close>

lemma formatar_data_total:
  "(dateparser_parse e data = None \<longrightarrow> formatar_data e data = data)
   \<and> (\<forall>dt. dateparser_parse e data = Some dt \<longrightarrow> formatar_data e data = strftime_Ymd dt)
   \<and> (\<forall>dt. dateparser_parse e data = Some dt \<and> 1000 \<le> year dt \<and> year dt \<le> 9999
            \<and> month dt \<le> 12 \<and> day dt \<le> 31
         \<longrightarrow> canonical_date (year dt) (month dt) (day dt) (formatar_data e data))"
  by (auto simp: formatar_data_def canonical_strftime)

lemma formatar_data_total_example:
  "dateparser_parse (example_env []) ''amanha'' = None
   \<and> formatar_data (example_env []) ''amanha'' = ''amanha''
   \<and> dateparser_parse (example_env []) ''04/03/2024'' = Some \<lparr>year = 2024, month = 3, day = 4\<rparr>
   \<and> canonical_date 2024 3 4 (formatar_data (example_env []) ''04/03/2024'')
   \<and> formatar_data (example_env []) ''04/03/2024'' = ''2024/03/04''"
  using formatar_data_total [of "example_env []" "''amanha''"]
    formatar_data_total [of "example_env []" "''04/03/2024''"]
  by (simp add: example_env_def date_table_def formatar_data_def strftime_Ymd_def
      strftime_Y_def digit_def char_of_eq_iff)

section \<open>Descriptions\<close>

text \<open>
  Claim C8. The description of a record is to be the description field of its row with
  the blanks around it removed. The loop over an Itau statement strips every field; the
  loop over a CSV statement stores \<open>row['Descricao']\<close> as the reader gives it. On the
  CSV statement below, whose row has blanks around its description, the record returned
  keeps them, although stripping the field would remove them.
\<close>

theorem descricao_kept_untrimmed:
  "categorizar (example_env [Inr ''Transporte'']) ''nubank'' ''joao'' extrato_csv
     = Inr resultado_csv
   \<and> row_dict [Data, Descricao, Valor, Identificador]
        [''2024-03-15'', '' Uber viagem '', ''-32.00'', ''abc123''] Descricao
       = Some (Some '' Uber viagem '')
   \<and> map descricao resultado_csv = ['' Uber viagem '']
   \<and> str_strip '' Uber viagem '' = ''Uber viagem''"
  by code_simp

text \<open>
  What both loops do: in a table returned for an Itau statement the descriptions are the
  second fields of the lines of three fields, stripped; in a table returned for a CSV
  statement they are the values of the column \<open>Descricao\<close> of the rows, unchanged.
\<close>

lemma descricao_of_row:
  "(str_lower banco = ''itau'' \<and> categorizar e banco port text = Inr ts
      \<longrightarrow> map descricao ts
            = map (\<lambda>l. str_strip (second_field l)) (filter three_fields (str_splitlines text)))
   \<and> (str_lower banco \<noteq> ''itau'' \<and> categorizar e banco port text = Inr ts
        \<and> csv_reader text = Record h fn # items
      \<longrightarrow> map (\<lambda>t. Some (Some (descricao t))) ts
            = map (\<lambda>i. row_dict fn (item_fields i) Descricao) (dict_rows items))"
proof (intro conjI impI)
  assume a: "str_lower banco = ''itau'' \<and> categorizar e banco port text = Inr ts"
  then have "itau_loop e CATEGORY_KEYWORDS port 0 [] (enumerate 1 (str_splitlines text)) = Inr ts"
    using categorizar_itau_Inr by blast
  from itau_loop_map [where f = descricao and g = "\<lambda>l. str_strip (second_field l)",
      OF itau_row_descricao this]
  show "map descricao ts
          = map (\<lambda>l. str_strip (second_field l)) (filter three_fields (str_splitlines text))"
    by simp
next
  assume a: "str_lower banco \<noteq> ''itau'' \<and> categorizar e banco port text = Inr ts
        \<and> csv_reader text = Record h fn # items"
  then have "csv_branch e CATEGORY_KEYWORDS port text = Inr ts"
    using categorizar_csv_Inr by blast
  with a have "csv_loop e CATEGORY_KEYWORDS port fn 0 [] (dict_rows items) = Inr ts"
    by (auto dest!: csv_branch_Inr)
  from csv_loop_map [where f = "\<lambda>t. Some (Some (descricao t))"
      and g = "\<lambda>i. row_dict fn (item_fields i) Descricao", OF csv_row_descricao this]
  show "map (\<lambda>t. Some (Some (descricao t))) ts
          = map (\<lambda>i. row_dict fn (item_fields i) Descricao) (dict_rows items)"
    by simp
qed

lemma descricao_of_row_witness:
  "str_lower ''Itau'' = ''itau''
   \<and> categorizar (example_env respostas) ''Itau'' ''joao'' extrato_itau = Inr resultado_itau
   \<and> map descricao resultado_itau
       = map (\<lambda>l. str_strip (second_field l)) (filter three_fields (str_splitlines extrato_itau))
   \<and> str_lower ''nubank'' \<noteq> ''itau''
   \<and> categorizar (example_env [Inr ''Transporte'']) ''nubank'' ''joao'' extrato_csv
       = Inr resultado_csv
   \<and> csv_reader extrato_csv
       = [Record 1 [Data, Descricao, Valor, Identificador], Record 2 [],
          Record 3 [''2024-03-15'', '' Uber viagem '', ''-32.00'', ''abc123'']]
   \<and> map (\<lambda>t. Some (Some (descricao t))) resultado_csv
       = map (\<lambda>i. row_dict [Data, Descricao, Valor, Identificador] (item_fields i) Descricao)
           (dict_rows [Record 2 [],
              Record 3 [''2024-03-15'', '' Uber viagem '', ''-32.00'', ''abc123'']])"
proof -
  have a: "map descricao resultado_itau
       = map (\<lambda>l. str_strip (second_field l)) (filter three_fields (str_splitlines extrato_itau))"
    using descricao_of_row [of "''Itau''" "example_env respostas" "''joao''" extrato_itau
        resultado_itau] lower_Itau run_itau
    by blast
  have b: "map (\<lambda>t. Some (Some (descricao t))) resultado_csv
       = map (\<lambda>i. row_dict [Data, Descricao, Valor, Identificador] (item_fields i) Descricao)
           (dict_rows [Record 2 [],
              Record 3 [''2024-03-15'', '' Uber viagem '', ''-32.00'', ''abc123'']])"
    using descricao_of_row [of "''nubank''" "example_env [Inr ''Transporte'']" "''joao''"
        extrato_csv resultado_csv 1 "[Data, Descricao, Valor, Identificador]"
        "[Record 2 [], Record 3 [''2024-03-15'', '' Uber viagem '', ''-32.00'', ''abc123'']]"]
      lower_nubank run_csv reader_csv
    by blast
  from a b lower_Itau run_itau lower_nubank run_csv reader_csv show ?thesis by blast
qed

section \<open>The keyword table\<close>

text \<open>
  Claim C9. Two keyword tables with the same categories in the same order give the same
  outcome on every input: the lists of keywords are never read. And the category that
  \<open>classificar_transacao\<close> returns is determined by the answer of the remote model and
  the direction.
\<close>

theorem keyword_lists_never_read:
  "(map fst kw1 = map fst kw2
      \<longrightarrow> categorizar_kw e kw1 banco port text = categorizar_kw e kw2 banco port text)
   \<and> (groq_chat e k (prompt kw desc tp) = groq_chat e' k' (prompt kw' desc' tp)
      \<longrightarrow> classificar_transacao e kw k desc tp = classificar_transacao e' kw' k' desc' tp)"
proof (intro conjI impI)
  assume keys: "map fst kw1 = map fst kw2"
  have "csv_branch e kw1 port text = csv_branch e kw2 port text"
    using csv_loop_keys [OF keys]
    by (auto simp: csv_branch_def split: list.splits csv_item.splits)
  then show "categorizar_kw e kw1 banco port text = categorizar_kw e kw2 banco port text"
    using itau_loop_keys [OF keys] by (auto simp: categorizar_kw_def)
next
  assume "groq_chat e k (prompt kw desc tp) = groq_chat e' k' (prompt kw' desc' tp)"
  then show "classificar_transacao e kw k desc tp = classificar_transacao e' kw' k' desc' tp"
    by (simp add: classificar_transacao_def)
qed

theorem keyword_lists_never_read_witness:
  "map fst (map (\<lambda>p. (fst p, [])) CATEGORY_KEYWORDS) = map fst CATEGORY_KEYWORDS
   \<and> categorizar_kw (example_env respostas) (map (\<lambda>p. (fst p, [])) CATEGORY_KEYWORDS)
        ''Itau'' ''joao'' extrato_itau
       = categorizar_kw (example_env respostas) CATEGORY_KEYWORDS ''Itau'' ''joao'' extrato_itau
   \<and> categorizar_kw (example_env respostas) CATEGORY_KEYWORDS ''Itau'' ''joao'' extrato_itau
       = Inr resultado_itau
   \<and> groq_chat (example_env respostas) 0 (prompt CATEGORY_KEYWORDS ''Supermercado'' Saida)
       = groq_chat (example_env respostas) 0 (prompt [] ''Padaria'' Saida)
   \<and> classificar_transacao (example_env respostas) CATEGORY_KEYWORDS 0 ''Supermercado'' Saida
       = classificar_transacao (example_env respostas) [] 0 ''Padaria'' Saida"
proof -
  have h: "map fst (map (\<lambda>p. (fst p, [])) CATEGORY_KEYWORDS) = map fst CATEGORY_KEYWORDS"
    by simp
  have g: "groq_chat (example_env respostas) 0 (prompt CATEGORY_KEYWORDS ''Supermercado'' Saida)
       = groq_chat (example_env respostas) 0 (prompt [] ''Padaria'' Saida)"
    by (simp add: example_env_def answers_in_order_def)
  note T = keyword_lists_never_read [of "map (\<lambda>p. (fst p, [])) CATEGORY_KEYWORDS"
      CATEGORY_KEYWORDS "example_env respostas" "''Itau''" "''joao''" extrato_itau
      0 CATEGORY_KEYWORDS "''Supermercado''" Saida
      "example_env respostas" 0 "[]" "''Padaria''"]
  from T h have "categorizar_kw (example_env respostas) (map (\<lambda>p. (fst p, [])) CATEGORY_KEYWORDS)
        ''Itau'' ''joao'' extrato_itau
       = categorizar_kw (example_env respostas) CATEGORY_KEYWORDS ''Itau'' ''joao'' extrato_itau"
    by blast
  moreover from T g have
    "classificar_transacao (example_env respostas) CATEGORY_KEYWORDS 0 ''Supermercado'' Saida
       = classificar_transacao (example_env respostas) [] 0 ''Padaria'' Saida"
    by blast
  moreover have "categorizar_kw (example_env respostas) CATEGORY_KEYWORDS ''Itau'' ''joao''
      extrato_itau = Inr resultado_itau"
    using run_itau by (simp add: categorizar_def)
  ultimately show ?thesis
    using h g by blast
qed

section \<open>The empty table\<close>

text \<open>
  Claim C10. When the loop ends having appended no record (as for an Itau statement
  without a line of three fields, or a CSV statement with its header and no row), the
  output step reads \<open>resultado[0]\<close> and the invocation ends with an \<open>IndexError\<close>
  that nothing catches; an empty table is never returned.
\<close>

theorem empty_result_index_error:
  "(str_lower banco = ''itau'' \<and> (\<forall>l\<in>set (str_splitlines text). \<not> three_fields l)
      \<longrightarrow> categorizar e banco port text = Inl (Uncaught IndexError))
   \<and> (str_lower banco \<noteq> ''itau'' \<and> csv_reader text = Record h fn # items
        \<and> required \<subseteq> set fn \<and> dict_rows items = []
      \<longrightarrow> categorizar e banco port text = Inl (Uncaught IndexError))
   \<and> (str_lower banco = ''itau''
        \<and> itau_loop e CATEGORY_KEYWORDS port 0 [] (enumerate 1 (str_splitlines text)) = Inr []
      \<longrightarrow> categorizar e banco port text = Inl (Uncaught IndexError))
   \<and> (str_lower banco \<noteq> ''itau'' \<and> csv_branch e CATEGORY_KEYWORDS port text = Inr []
      \<longrightarrow> categorizar e banco port text = Inl (Uncaught IndexError))
   \<and> categorizar e banco port text \<noteq> Inr []"
proof (intro conjI impI)
  assume "str_lower banco = ''itau'' \<and> (\<forall>l\<in>set (str_splitlines text). \<not> three_fields l)"
  then show "categorizar e banco port text = Inl (Uncaught IndexError)"
    by (simp add: categorizar_itau_eq itau_loop_no_three gera_csv_def)
next
  assume "str_lower banco \<noteq> ''itau'' \<and> csv_reader text = Record h fn # items
        \<and> required \<subseteq> set fn \<and> dict_rows items = []"
  then show "categorizar e banco port text = Inl (Uncaught IndexError)"
    by (simp add: categorizar_csv_eq csv_branch_def gera_csv_def)
next
  assume a: "str_lower banco = ''itau''
        \<and> itau_loop e CATEGORY_KEYWORDS port 0 [] (enumerate 1 (str_splitlines text)) = Inr []"
  then have "categorizar e banco port text = gera_csv []"
    using categorizar_itau_eq [of banco e port "text"] by simp
  then show "categorizar e banco port text = Inl (Uncaught IndexError)"
    by (simp add: gera_csv_def)
next
  assume "str_lower banco \<noteq> ''itau'' \<and> csv_branch e CATEGORY_KEYWORDS port text = Inr []"
  then show "categorizar e banco port text = Inl (Uncaught IndexError)"
    by (simp add: categorizar_csv_eq gera_csv_def)
next
  show "categorizar e banco port text \<noteq> Inr []"
    using gera_csv_not_empty
    by (auto simp: categorizar_def categorizar_kw_def split: sum.splits)
qed

theorem empty_result_index_error_witness:
  "str_lower ''Itau'' = ''itau''
   \<and> filter three_fields (str_splitlines extrato_rodape) = []
   \<and> itau_loop (example_env respostas) CATEGORY_KEYWORDS ''joao'' 0 []
        (enumerate 1 (str_splitlines extrato_rodape)) = Inr []
   \<and> categorizar (example_env respostas) ''Itau'' ''joao'' extrato_rodape
       = Inl (Uncaught IndexError)
   \<and> str_lower ''nubank'' \<noteq> ''itau''
   \<and> csv_reader cabecalho = [Record 1 [Data, Descricao, Valor, Identificador]]
   \<and> required \<subseteq> set [Data, Descricao, Valor, Identificador]
   \<and> dict_rows [] = []
   \<and> csv_branch (example_env respostas) CATEGORY_KEYWORDS ''joao'' cabecalho = Inr []
   \<and> categorizar (example_env respostas) ''nubank'' ''joao'' cabecalho
       = Inl (Uncaught IndexError)"
proof -
  have a: "\<forall>l\<in>set (str_splitlines extrato_rodape). \<not> three_fields l"
    by code_simp
  have a': "itau_loop (example_env respostas) CATEGORY_KEYWORDS ''joao'' 0 []
        (enumerate 1 (str_splitlines extrato_rodape)) = Inr []"
    by code_simp
  have b: "csv_reader cabecalho = [Record 1 [Data, Descricao, Valor, Identificador]]"
    by code_simp
  have b': "csv_branch (example_env respostas) CATEGORY_KEYWORDS ''joao'' cabecalho = Inr []"
    by code_simp
  have c: "required \<subseteq> set [Data, Descricao, Valor, Identificador]"
    by (simp add: required_def)
  have d: "dict_rows [] = []"
    by (simp add: dict_rows_def)
  have "categorizar (example_env respostas) ''Itau'' ''joao'' extrato_rodape
       = Inl (Uncaught IndexError)"
    using empty_result_index_error [of "''Itau''" extrato_rodape "example_env respostas"
        "''joao''"] lower_Itau a
    by blast
  moreover have "categorizar (example_env respostas) ''nubank'' ''joao'' cabecalho
       = Inl (Uncaught IndexError)"
    using empty_result_index_error [of "''nubank''" cabecalho "example_env respostas"
        "''joao''" 1 "[Data, Descricao, Valor, Identificador]" "[]"] lower_nubank b c d
    by blast
  moreover have "filter three_fields (str_splitlines extrato_rodape) = []"
    using a by (simp add: filter_empty_conv)
  ultimately show ?thesis
    using a' b b' c d lower_Itau lower_nubank by blast
qed

end
